theory Spec2Isabelle
  imports Main
begin

section \<open>Data model of \<open>src/utils/collaborationSystem.ts\<close>\<close>

text \<open>
  Timestamps. The source keeps every instant as the ISO string of \<^verbatim>\<open>new Date().toISOString()\<close>
  and reads it back with \<^verbatim>\<open>new Date(s).getTime()\<close>; both directions are exact to the
  millisecond, so an instant is modelled by its number of milliseconds since the epoch.
  Every exported function is synchronous; the clock readings one call takes are modelled
  as the single instant \<open>now\<close> passed to it.
\<close>

type_synonym timestamp = int

record CollaborationLink =
  linkId :: string
  spreadsheetId :: string
  spreadsheetTitle :: string
  ownerEmail :: string
  createdAt :: timestamp
  expiresAt :: "timestamp option"

record ActiveCollaborator =
  email :: string
  name :: string
  joinedAt :: timestamp
  lastActive :: timestamp
  isActive :: bool

text \<open>
  \<^verbatim>\<open>localStorage\<close> maps string keys to JSON text. The module stores three shapes of JSON
  (one link, an array of collaborators, an array of strings); \<^verbatim>\<open>JSON.parse\<close> of
  \<^verbatim>\<open>JSON.stringify\<close> gives the value back, so the stored text is modelled by the value
  it encodes. Keys stay the concatenated strings of the source, so that two keys alias in
  the model exactly when they do in the browser.
\<close>

datatype stored =
    Link CollaborationLink
  | Collaborators "ActiveCollaborator list"
  | Ids "string list"

text \<open>
  Modelled from the spec: \<^verbatim>\<open>trackActivity\<close> of \<^verbatim>\<open>./notificationSystem\<close> is not part of the
  sources at hand. The spec describes it as the NotificationSink capability
  \<^verbatim>\<open>dispatch(recipientEmail, eventKind, relatedId?, message)\<close>, fire-and-forget; the model
  records each dispatched event in a log of its own, beside the key-value store.
\<close>

record activity =
  recipient :: string
  kind :: string
  relatedId :: "string option"
  message :: string

record world =
  localStorage :: "string \<rightharpoonup> stored"
  activities :: "activity list"

definition emptyWorld :: world where
  "emptyWorld = \<lparr>localStorage = Map.empty, activities = []\<rparr>"

definition getItem :: "world \<Rightarrow> string \<Rightarrow> stored option" where
  "getItem w k = localStorage w k"

definition setItem :: "string \<Rightarrow> stored \<Rightarrow> world \<Rightarrow> world" where
  "setItem k v w = w\<lparr>localStorage := (localStorage w)(k \<mapsto> v)\<rparr>"

definition trackActivity :: "string \<Rightarrow> string \<Rightarrow> string option \<Rightarrow> string \<Rightarrow> world \<Rightarrow> world" where
  "trackActivity to ev rel msg w =
     w\<lparr>activities := activities w @ [\<lparr>recipient = to, kind = ev, relatedId = rel, message = msg\<rparr>]\<rparr>"

definition COLLABORATION_LINKS_KEY :: string where
  "COLLABORATION_LINKS_KEY = ''collaboration_links_''"

definition ACTIVE_COLLABORATORS_KEY :: string where
  "ACTIVE_COLLABORATORS_KEY = ''active_collaborators_''"

definition COLLABORATION_ACCESS_KEY :: string where
  "COLLABORATION_ACCESS_KEY = ''collaboration_access_''"

text \<open>The owner index is keyed by the literal prefix \<^verbatim>\<open>owner_links_\<close> in the source.\<close>

definition OWNER_LINKS_KEY :: string where
  "OWNER_LINKS_KEY = ''owner_links_''"

section \<open>Array helpers of the JavaScript library, as the source uses them\<close>

text \<open>\<^verbatim>\<open>Array.prototype.findIndex\<close>: the index of the first match, \<open>-1\<close> when there is none.\<close>

fun findIndex :: "('a \<Rightarrow> bool) \<Rightarrow> 'a list \<Rightarrow> int" where
  "findIndex P [] = -1"
| "findIndex P (x # xs) =
     (if P x then 0 else (let i = findIndex P xs in if i < 0 then -1 else i + 1))"

text \<open>
  \<^verbatim>\<open>Array.prototype.find\<close> returns the first matching object itself, and the source then
  assigns to its fields: the array element is mutated in place. \<open>mutateFirst\<close> is that
  assignment seen on the array.
\<close>

fun mutateFirst :: "('a \<Rightarrow> bool) \<Rightarrow> ('a \<Rightarrow> 'a) \<Rightarrow> 'a list \<Rightarrow> 'a list" where
  "mutateFirst P f [] = []"
| "mutateFirst P f (x # xs) = (if P x then f x # xs else x # mutateFirst P f xs)"

text \<open>\<^verbatim>\<open>Array.prototype.some\<close> with a callback that runs against the store: left to right,
  stopping at the first hit.\<close>

fun some :: "('a \<Rightarrow> world \<Rightarrow> bool \<times> world) \<Rightarrow> 'a list \<Rightarrow> world \<Rightarrow> bool \<times> world" where
  "some f [] w = (False, w)"
| "some f (x # xs) w = (case f x w of (True, w') \<Rightarrow> (True, w') | (False, w') \<Rightarrow> some f xs w')"

section \<open>Link ids\<close>

text \<open>Decimal rendering of \<^verbatim>\<open>Date.now()\<close> inside the template string.\<close>

function show_nat :: "nat \<Rightarrow> string" where
  "show_nat n =
     (if n < 10 then [''0123456789'' ! n]
      else show_nat (n div 10) @ [''0123456789'' ! (n mod 10)])"
  by pat_completeness auto
termination
  by (relation "measure id") auto

declare show_nat.simps [simp del]

definition show_int :: "int \<Rightarrow> string" where
  "show_int i = (if i < 0 then CHR ''-'' # show_nat (nat (- i)) else show_nat (nat i))"

text \<open>
  \<^verbatim>\<open>`collab_${Date.now()}_${Math.random().toString(36).substr(2, 9)}`\<close>. The random suffix
  (up to nine base-36 digits) is the parameter \<open>rnd\<close>.
\<close>

definition generateLinkId :: "timestamp \<Rightarrow> string \<Rightarrow> string" where
  "generateLinkId now rnd = ''collab_'' @ show_int now @ ''_'' @ rnd"

section \<open>The operations\<close>

text \<open>
  Every function that touches \<^verbatim>\<open>localStorage\<close> takes the world and returns its result with
  the world it leaves behind. A value of another shape than the TypeScript signature
  announces lies outside the types of the source; the model reads it as absent.
\<close>

definition getCollaborationLink :: "string \<Rightarrow> world \<Rightarrow> CollaborationLink option \<times> world" where
  "getCollaborationLink lid w =
     (case getItem w (COLLABORATION_LINKS_KEY @ lid) of
        Some (Link l) \<Rightarrow> (Some l, w)
      | _ \<Rightarrow> (None, w))"

definition getOwnerLinks :: "string \<Rightarrow> world \<Rightarrow> string list \<times> world" where
  "getOwnerLinks owner w =
     (case getItem w (OWNER_LINKS_KEY @ owner) of
        Some (Ids ls) \<Rightarrow> (ls, w)
      | _ \<Rightarrow> ([], w))"

definition createCollaborationLink ::
  "timestamp \<Rightarrow> string \<Rightarrow> string \<Rightarrow> string \<Rightarrow> string \<Rightarrow> world \<Rightarrow> CollaborationLink \<times> world" where
  "createCollaborationLink now rnd sid title owner w =
     (let lid = generateLinkId now rnd;
          link = \<lparr>linkId = lid, spreadsheetId = sid, spreadsheetTitle = title,
                  ownerEmail = owner, createdAt = now, expiresAt = None\<rparr>;
          w1 = setItem (COLLABORATION_LINKS_KEY @ lid) (Link link) w;
          (ownerLinks, w2) = getOwnerLinks owner w1;
          w3 = setItem (OWNER_LINKS_KEY @ owner) (Ids (ownerLinks @ [lid])) w2
      in (link, w3))"

definition fiveMinutes :: int where
  "fiveMinutes = 5 * 60 * 1000"

definition getActiveCollaborators ::
  "timestamp \<Rightarrow> string \<Rightarrow> world \<Rightarrow> ActiveCollaborator list \<times> world" where
  "getActiveCollaborators now sid w =
     (case getItem w (ACTIVE_COLLABORATORS_KEY @ sid) of
        Some (Collaborators collaborators) \<Rightarrow>
          (map (\<lambda>collab. collab\<lparr>isActive := now - lastActive collab < fiveMinutes\<rparr>) collaborators, w)
      | _ \<Rightarrow> ([], w))"

definition getUserCollaborations :: "string \<Rightarrow> world \<Rightarrow> string list \<times> world" where
  "getUserCollaborations userEmail w =
     (case getItem w (COLLABORATION_ACCESS_KEY @ userEmail) of
        Some (Ids ds) \<Rightarrow> (ds, w)
      | _ \<Rightarrow> ([], w))"

definition notifyOwnerOfNewCollaborator :: "string \<Rightarrow> string \<Rightarrow> string \<Rightarrow> world \<Rightarrow> world" where
  "notifyOwnerOfNewCollaborator owner collaboratorName title w =
     trackActivity owner ''collaboration_joined'' None
       (collaboratorName @ '' joined '' @ [CHR 0x22] @ title @ [CHR 0x22]) w"

definition addCollaborator ::
  "timestamp \<Rightarrow> string \<Rightarrow> string \<Rightarrow> string \<Rightarrow> world \<Rightarrow> bool \<times> world" where
  "addCollaborator now lid userEmail userName w =
     (case getCollaborationLink lid w of
        (None, w0) \<Rightarrow> (False, w0)
      | (Some link, w0) \<Rightarrow>
          (let collaborator = \<lparr>email = userEmail, name = userName, joinedAt = now,
                               lastActive = now, isActive = True\<rparr>;
               (collaborators, w1) = getActiveCollaborators now (spreadsheetId link) w0;
               existingIndex = findIndex (\<lambda>c. email c = userEmail) collaborators;
               collaborators' =
                 (if existingIndex \<ge> 0
                  then collaborators[nat existingIndex :=
                         (collaborators ! nat existingIndex)\<lparr>lastActive := now, isActive := True\<rparr>]
                  else collaborators @ [collaborator]);
               w2 = setItem (ACTIVE_COLLABORATORS_KEY @ spreadsheetId link)
                      (Collaborators collaborators') w1;
               (userAccess, w3) = getUserCollaborations userEmail w2;
               w4 = (if spreadsheetId link \<notin> set userAccess
                     then setItem (COLLABORATION_ACCESS_KEY @ userEmail)
                            (Ids (userAccess @ [spreadsheetId link])) w3
                     else w3);
               w5 = notifyOwnerOfNewCollaborator (ownerEmail link) userName (spreadsheetTitle link) w4
           in (True, w5)))"

definition updateCollaboratorActivity :: "timestamp \<Rightarrow> string \<Rightarrow> string \<Rightarrow> world \<Rightarrow> world" where
  "updateCollaboratorActivity now sid userEmail w =
     (let (collaborators, w1) = getActiveCollaborators now sid w
      in case find (\<lambda>c. email c = userEmail) collaborators of
           None \<Rightarrow> w1
         | Some collaborator \<Rightarrow>
             setItem (ACTIVE_COLLABORATORS_KEY @ sid)
               (Collaborators
                  (mutateFirst (\<lambda>c. email c = userEmail)
                     (\<lambda>c. c\<lparr>lastActive := now, isActive := True\<rparr>) collaborators)) w1)"

definition removeCollaborator :: "timestamp \<Rightarrow> string \<Rightarrow> string \<Rightarrow> world \<Rightarrow> world" where
  "removeCollaborator now sid userEmail w =
     (let (collaborators, w1) = getActiveCollaborators now sid w;
          filtered = filter (\<lambda>c. email c \<noteq> userEmail) collaborators
      in setItem (ACTIVE_COLLABORATORS_KEY @ sid) (Collaborators filtered) w1)"

definition isSpreadsheetOwner :: "string \<Rightarrow> string \<Rightarrow> world \<Rightarrow> bool \<times> world" where
  "isSpreadsheetOwner sid userEmail w =
     (let (ownerLinks, w1) = getOwnerLinks userEmail w
      in some (\<lambda>lid w'. case getCollaborationLink lid w' of
                          (None, w'') \<Rightarrow> (False, w'')
                        | (Some link, w'') \<Rightarrow> (spreadsheetId link = sid, w''))
           ownerLinks w1)"

section \<open>Shareable URLs\<close>

text \<open>\<^verbatim>\<open>window.location.origin\<close> is the parameter \<open>origin\<close>.\<close>

definition getCollaborationLinkUrl :: "string \<Rightarrow> string \<Rightarrow> string" where
  "getCollaborationLinkUrl origin lid = origin @ ''?collab='' @ lid"

text \<open>
  The browser side of \<^verbatim>\<open>parseCollaborationLink\<close>, after the URL standard.
  \<open>location_search\<close> is \<^verbatim>\<open>window.location.search\<close> of a page opened at \<open>url\<close>: the
  query from the first \<^verbatim>\<open>?\<close> up to the fragment, empty when the query is empty. The
  parser's own clean-up (dropping tabs and newlines, percent-encoding of spaces, quotes and
  bytes beyond ASCII) is not modelled; it does not act on letters, digits, \<^verbatim>\<open>_\<close>,
  \<^verbatim>\<open>=\<close>, \<^verbatim>\<open>&\<close>, \<^verbatim>\<open>+\<close> or \<^verbatim>\<open>%\<close>.
\<close>

definition location_search :: "string \<Rightarrow> string" where
  "location_search url =
     (let q = dropWhile (\<lambda>c. c \<noteq> CHR ''?'') (takeWhile (\<lambda>c. c \<noteq> CHR ''#'') url)
      in if length q \<le> 1 then [] else q)"

fun split_on :: "char \<Rightarrow> string \<Rightarrow> string list" where
  "split_on d [] = [[]]"
| "split_on d (c # cs) =
     (if c = d then [] # split_on d cs
      else (case split_on d cs of p # ps \<Rightarrow> (c # p) # ps | [] \<Rightarrow> [[c]]))"

definition hex_value :: "char \<Rightarrow> nat option" where
  "hex_value c =
     (let n = (of_char c :: nat)
      in if 48 \<le> n \<and> n \<le> 57 then Some (n - 48)
         else if 65 \<le> n \<and> n \<le> 70 then Some (n - 55)
         else if 97 \<le> n \<and> n \<le> 102 then Some (n - 87)
         else None)"

fun percent_decode :: "string \<Rightarrow> string" where
  "percent_decode (c # h1 # h2 # rest) =
     (case (c = CHR ''%'', hex_value h1, hex_value h2) of
        (True, Some a, Some b) \<Rightarrow> char_of (16 * a + b) # percent_decode rest
      | _ \<Rightarrow> c # percent_decode (h1 # h2 # rest))"
| "percent_decode cs = cs"

text \<open>A name or value of the query: \<^verbatim>\<open>+\<close> reads as a space, then \<^verbatim>\<open>%XY\<close> as a byte.\<close>

definition urldecode :: "string \<Rightarrow> string" where
  "urldecode s = percent_decode (map (\<lambda>c. if c = CHR ''+'' then CHR '' '' else c) s)"

definition parse_pair :: "string \<Rightarrow> string \<times> string" where
  "parse_pair s =
     (urldecode (takeWhile (\<lambda>c. c \<noteq> CHR ''='') s),
      urldecode (drop 1 (dropWhile (\<lambda>c. c \<noteq> CHR ''='') s)))"

text \<open>\<^verbatim>\<open>new URLSearchParams(init)\<close>: one leading \<^verbatim>\<open>?\<close> is dropped, the rest is split at
  \<^verbatim>\<open>&\<close>, empty pieces are skipped, each piece is split at its first \<^verbatim>\<open>=\<close>.\<close>

definition URLSearchParams :: "string \<Rightarrow> (string \<times> string) list" where
  "URLSearchParams init =
     (let input = (case init of c # cs \<Rightarrow> if c = CHR ''?'' then cs else init | [] \<Rightarrow> [])
      in map parse_pair (filter (\<lambda>s. s \<noteq> []) (split_on (CHR ''&'') input)))"

text \<open>\<^verbatim>\<open>params.get(name)\<close>: the value of the first pair of that name, or \<^verbatim>\<open>null\<close>.\<close>

definition URLSearchParams_get :: "(string \<times> string) list \<Rightarrow> string \<Rightarrow> string option" where
  "URLSearchParams_get params n = map_option snd (find (\<lambda>p. fst p = n) params)"

text \<open>\<^verbatim>\<open>window.location.search\<close> is the parameter \<open>search\<close>.\<close>

definition parseCollaborationLink :: "string \<Rightarrow> string option" where
  "parseCollaborationLink search = URLSearchParams_get (URLSearchParams search) ''collab''"

text \<open>The alphabet of the ids \<open>generateLinkId\<close> builds: letters, digits and the underscore.\<close>

definition linkIdChar :: "char \<Rightarrow> bool" where
  "linkIdChar c \<longleftrightarrow>
     c \<in> set ''abcdefghijklmnopqrstuvwxyzABCDEFGHIJKLMNOPQRSTUVWXYZ0123456789_''"

section \<open>Observations and sequences of calls\<close>

text \<open>The roster as it lies in the store, before any read recomputes \<open>isActive\<close>.\<close>

definition storedCollaborators :: "world \<Rightarrow> string \<Rightarrow> ActiveCollaborator list" where
  "storedCollaborators w sid =
     (case getItem w (ACTIVE_COLLABORATORS_KEY @ sid) of
        Some (Collaborators cs) \<Rightarrow> cs
      | _ \<Rightarrow> [])"

text \<open>At most one collaborator record per (document, email).\<close>

definition uniqueEmails :: "world \<Rightarrow> string \<Rightarrow> bool" where
  "uniqueEmails w sid = distinct (map email (storedCollaborators w sid))"

text \<open>One call of an exported function that touches the store, with its arguments.\<close>

datatype operation =
    CreateLink timestamp string string string string
  | ResolveLink string
  | OwnerLinks string
  | Join timestamp string string string
  | Roster timestamp string
  | Heartbeat timestamp string string
  | Remove timestamp string string
  | UserCollaborations string
  | IsOwner string string

fun perform :: "operation \<Rightarrow> world \<Rightarrow> world" where
  "perform (CreateLink now rnd sid title owner) w = snd (createCollaborationLink now rnd sid title owner w)"
| "perform (ResolveLink lid) w = snd (getCollaborationLink lid w)"
| "perform (OwnerLinks owner) w = snd (getOwnerLinks owner w)"
| "perform (Join now lid userEmail userName) w = snd (addCollaborator now lid userEmail userName w)"
| "perform (Roster now sid) w = snd (getActiveCollaborators now sid w)"
| "perform (Heartbeat now sid userEmail) w = updateCollaboratorActivity now sid userEmail w"
| "perform (Remove now sid userEmail) w = removeCollaborator now sid userEmail w"
| "perform (UserCollaborations userEmail) w = snd (getUserCollaborations userEmail w)"
| "perform (IsOwner sid userEmail) w = snd (isSpreadsheetOwner sid userEmail w)"

fun run :: "operation list \<Rightarrow> world \<Rightarrow> world" where
  "run [] w = w"
| "run (op # ops) w = run ops (perform op w)"

section \<open>Example worlds\<close>

text \<open>The owner \<open>a@x.com\<close> has shared two documents, \<open>Budget2024\<close> and \<open>Plan\<close>.\<close>

definition sharedWorld :: world where
  "sharedWorld =
     snd (createCollaborationLink 6 ''y2'' ''Plan'' ''Plan Q3'' ''a@x.com''
       (snd (createCollaborationLink 5 ''x1'' ''Budget2024'' ''Budget'' ''a@x.com'' emptyWorld)))"

text \<open>A roster whose stored flags disagree with the clock: the first entry was last active
  five minutes before the instant 300000, the second four minutes and 59 seconds before.\<close>

definition staleWorld :: world where
  "staleWorld =
     \<lparr>localStorage =
        [ACTIVE_COLLABORATORS_KEY @ ''Budget2024'' \<mapsto>
           Collaborators
             [\<lparr>email = ''b@x.com'', name = ''Bob'', joinedAt = 0, lastActive = 0, isActive = True\<rparr>,
              \<lparr>email = ''c@x.com'', name = ''Cy'', joinedAt = 0, lastActive = 1000, isActive = False\<rparr>]],
      activities = []\<rparr>"

text \<open>A link that carries an expiry instant, \<open>0\<close>, as the optional field \<open>expiresAt\<close> allows.\<close>

definition expiredWorld :: world where
  "expiredWorld =
     \<lparr>localStorage =
        [COLLABORATION_LINKS_KEY @ ''collab_1_old'' \<mapsto>
           Link \<lparr>linkId = ''collab_1_old'', spreadsheetId = ''Budget2024'',
                 spreadsheetTitle = ''Budget'', ownerEmail = ''a@x.com'', createdAt = 0,
                 expiresAt = Some 0\<rparr>],
      activities = []\<rparr>"

text \<open>The same store with the expiry taken off the link.\<close>

definition unexpiredWorld :: world where
  "unexpiredWorld =
     setItem (COLLABORATION_LINKS_KEY @ ''collab_1_old'')
       (Link \<lparr>linkId = ''collab_1_old'', spreadsheetId = ''Budget2024'',
              spreadsheetTitle = ''Budget'', ownerEmail = ''a@x.com'', createdAt = 0,
              expiresAt = None\<rparr>)
       expiredWorld"

section \<open>Basic facts\<close>

text \<open>The four key prefixes never produce the same key.\<close>

lemma keys_distinct [simp]:
  "COLLABORATION_LINKS_KEY @ a \<noteq> ACTIVE_COLLABORATORS_KEY @ b"
  "COLLABORATION_LINKS_KEY @ a \<noteq> COLLABORATION_ACCESS_KEY @ b"
  "COLLABORATION_LINKS_KEY @ a \<noteq> OWNER_LINKS_KEY @ b"
  "ACTIVE_COLLABORATORS_KEY @ a \<noteq> COLLABORATION_LINKS_KEY @ b"
  "ACTIVE_COLLABORATORS_KEY @ a \<noteq> COLLABORATION_ACCESS_KEY @ b"
  "ACTIVE_COLLABORATORS_KEY @ a \<noteq> OWNER_LINKS_KEY @ b"
  "COLLABORATION_ACCESS_KEY @ a \<noteq> COLLABORATION_LINKS_KEY @ b"
  "COLLABORATION_ACCESS_KEY @ a \<noteq> ACTIVE_COLLABORATORS_KEY @ b"
  "COLLABORATION_ACCESS_KEY @ a \<noteq> OWNER_LINKS_KEY @ b"
  "OWNER_LINKS_KEY @ a \<noteq> COLLABORATION_LINKS_KEY @ b"
  "OWNER_LINKS_KEY @ a \<noteq> ACTIVE_COLLABORATORS_KEY @ b"
  "OWNER_LINKS_KEY @ a \<noteq> COLLABORATION_ACCESS_KEY @ b"
  by (simp_all add: COLLABORATION_LINKS_KEY_def ACTIVE_COLLABORATORS_KEY_def
        COLLABORATION_ACCESS_KEY_def OWNER_LINKS_KEY_def)

lemma getItem_setItem [simp]: "getItem (setItem k v w) k' = (if k' = k then Some v else getItem w k')"
  by (simp add: getItem_def setItem_def)

lemma activities_setItem [simp]: "activities (setItem k v w) = activities w"
  by (simp add: setItem_def)

lemma getItem_trackActivity [simp]: "getItem (trackActivity a b c d w) k = getItem w k"
  by (simp add: getItem_def trackActivity_def)

lemma getItem_notify [simp]: "getItem (notifyOwnerOfNewCollaborator a b c w) k = getItem w k"
  by (simp add: notifyOwnerOfNewCollaborator_def)

lemma snd_getCollaborationLink [simp]: "snd (getCollaborationLink lid w) = w"
  by (simp add: getCollaborationLink_def split: option.splits stored.splits)

lemma snd_getOwnerLinks [simp]: "snd (getOwnerLinks e w) = w"
  by (simp add: getOwnerLinks_def split: option.splits stored.splits)

lemma snd_getActiveCollaborators [simp]: "snd (getActiveCollaborators now sid w) = w"
  by (simp add: getActiveCollaborators_def split: option.splits stored.splits)

lemma snd_getUserCollaborations [simp]: "snd (getUserCollaborations e w) = w"
  by (simp add: getUserCollaborations_def split: option.splits stored.splits)

lemma fst_getActiveCollaborators:
  "fst (getActiveCollaborators now sid w) =
     map (\<lambda>c. c\<lparr>isActive := now - lastActive c < fiveMinutes\<rparr>) (storedCollaborators w sid)"
  by (simp add: getActiveCollaborators_def storedCollaborators_def split: option.splits stored.splits)

lemma findIndex_ge: "- 1 \<le> findIndex P xs"
  by (induction xs) (auto simp: Let_def)

lemma findIndex_nonneg_iff: "0 \<le> findIndex P xs \<longleftrightarrow> (\<exists>x\<in>set xs. P x)"
  using findIndex_ge [of P] by (induction xs) (auto simp: Let_def)

lemma findIndex_update:
  "0 \<le> findIndex P xs \<Longrightarrow>
     xs[nat (findIndex P xs) := f (xs ! nat (findIndex P xs))] = mutateFirst P f xs"
proof (induction xs)
  case Nil
  then show ?case by simp
next
  case (Cons x xs)
  show ?case
  proof (cases "P x")
    case True
    then show ?thesis by simp
  next
    case False
    with Cons.prems have nn: "0 \<le> findIndex P xs"
      by (simp add: Let_def split: if_splits)
    then have "nat (findIndex P xs + 1) = Suc (nat (findIndex P xs))"
      by simp
    with False nn Cons.IH show ?thesis
      by (simp add: Let_def)
  qed
qed


lemma findIndex_mutateFirst:
  "\<exists>x\<in>set xs. P x \<Longrightarrow>
     xs[nat (findIndex P xs) := f (xs ! nat (findIndex P xs))] = mutateFirst P f xs"
  by (simp add: findIndex_update findIndex_nonneg_iff)

lemma findIndex_refresh:
  "\<exists>x\<in>set xs. P x \<Longrightarrow>
     xs[nat (findIndex P xs) := (xs ! nat (findIndex P xs))\<lparr>lastActive := t, isActive := True\<rparr>] =
     mutateFirst P (\<lambda>c. c\<lparr>lastActive := t, isActive := True\<rparr>) xs"
  using findIndex_mutateFirst [of xs P "\<lambda>c. c\<lparr>lastActive := t, isActive := True\<rparr>"] by simp

lemma fst_addCollaborator:
  "fst (addCollaborator now lid u n w) = (fst (getCollaborationLink lid w) \<noteq> None)"
  by (simp add: addCollaborator_def split_beta Let_def split: option.splits)

lemma stored_after_join:
  "fst (getCollaborationLink lid w) = Some link \<Longrightarrow>
   storedCollaborators (snd (addCollaborator now lid u n w)) (spreadsheetId link) =
     (let cs = fst (getActiveCollaborators now (spreadsheetId link) w)
      in if (\<exists>c\<in>set cs. email c = u)
         then mutateFirst (\<lambda>c. email c = u) (\<lambda>c. c\<lparr>lastActive := now, isActive := True\<rparr>) cs
         else cs @ [\<lparr>email = u, name = n, joinedAt = now, lastActive = now, isActive = True\<rparr>])"
  by (simp add: addCollaborator_def split_beta Let_def storedCollaborators_def
        findIndex_nonneg_iff findIndex_refresh)

lemma getItem_after_join:
  "fst (getCollaborationLink lid w) = Some link \<Longrightarrow>
   k \<noteq> ACTIVE_COLLABORATORS_KEY @ spreadsheetId link \<Longrightarrow>
   k \<noteq> COLLABORATION_ACCESS_KEY @ u \<Longrightarrow>
   getItem (snd (addCollaborator now lid u n w)) k = getItem w k"
  by (simp add: addCollaborator_def split_beta Let_def)

section \<open>Facts about the roster\<close>

lemma map_email_mutateFirst:
  "(\<And>x. email (f x) = email x) \<Longrightarrow> map email (mutateFirst P f xs) = map email xs"
  by (induction xs) auto

lemma length_mutateFirst [simp]: "length (mutateFirst P f xs) = length xs"
  by (induction xs) auto

lemma find_mutateFirst:
  "(\<And>x. P x \<Longrightarrow> P (f x)) \<Longrightarrow> find P (mutateFirst P f xs) = map_option f (find P xs)"
  by (induction xs) auto

lemma filter_email_none:
  "u \<notin> set (map email xs) \<Longrightarrow> filter (\<lambda>c. email c = u) xs = []"
  by (induction xs) auto

lemma filter_email_mutateFirst:
  "distinct (map email xs) \<Longrightarrow> (\<And>x. email (f x) = email x) \<Longrightarrow>
     filter (\<lambda>c. email c = u) (mutateFirst (\<lambda>c. email c = u) f xs) =
     map f (filter (\<lambda>c. email c = u) xs)"
  by (induction xs) (auto simp: filter_email_none)

lemma filter_email_single:
  "distinct (map email xs) \<Longrightarrow> \<exists>x\<in>set xs. email x = u \<Longrightarrow>
     \<exists>x. filter (\<lambda>c. email c = u) xs = [x]"
  by (induction xs) (auto simp: filter_email_none)

lemma fields_getActiveCollaborators:
  "map email (fst (getActiveCollaborators now sid w)) = map email (storedCollaborators w sid)"
  "map name (fst (getActiveCollaborators now sid w)) = map name (storedCollaborators w sid)"
  "map joinedAt (fst (getActiveCollaborators now sid w)) = map joinedAt (storedCollaborators w sid)"
  "map lastActive (fst (getActiveCollaborators now sid w)) = map lastActive (storedCollaborators w sid)"
  by (simp_all add: fst_getActiveCollaborators)

lemma filter_email_read:
  "filter (\<lambda>c. email c = u) (fst (getActiveCollaborators t sid w)) =
     map (\<lambda>c. c\<lparr>isActive := t - lastActive c < fiveMinutes\<rparr>)
       (filter (\<lambda>c. email c = u) (storedCollaborators w sid))"
  by (simp add: fst_getActiveCollaborators filter_map comp_def)

lemma joined_record:
  assumes link: "fst (getCollaborationLink lid w) = Some link"
    and uniq: "uniqueEmails w (spreadsheetId link)"
  shows "\<exists>c. filter (\<lambda>c. email c = u)
               (storedCollaborators (snd (addCollaborator now lid u n w)) (spreadsheetId link)) = [c] \<and>
             lastActive c = now \<and> isActive c"
proof -
  define cs where "cs = fst (getActiveCollaborators now (spreadsheetId link) w)"
  have dist: "distinct (map email cs)"
    using uniq by (simp add: cs_def uniqueEmails_def fields_getActiveCollaborators)
  show ?thesis
  proof (cases "\<exists>c\<in>set cs. email c = u")
    case True
    with dist obtain x where x: "filter (\<lambda>c. email c = u) cs = [x]"
      using filter_email_single by blast
    from True link dist x show ?thesis
      by (simp add: stored_after_join cs_def [symmetric] filter_email_mutateFirst)
  next
    case False
    then have "filter (\<lambda>c. email c = u) cs = []"
      by (simp add: filter_empty_conv)
    with False link show ?thesis
      by (simp add: stored_after_join cs_def [symmetric])
  qed
qed

lemma link_after_join:
  "fst (getCollaborationLink lid' (snd (addCollaborator now lid u n w))) =
   fst (getCollaborationLink lid' w)"
proof (cases "fst (getCollaborationLink lid w)")
  case None
  then show ?thesis
    by (simp add: addCollaborator_def split_beta)
next
  case (Some link)
  then have "getItem (snd (addCollaborator now lid u n w)) (COLLABORATION_LINKS_KEY @ lid') =
             getItem w (COLLABORATION_LINKS_KEY @ lid')"
    by (rule getItem_after_join) simp_all
  then show ?thesis
    by (simp add: getCollaborationLink_def split: option.splits stored.splits)
qed

lemma stored_other_after_join:
  assumes "fst (getCollaborationLink lid w) = Some link" and "sid \<noteq> spreadsheetId link"
  shows "storedCollaborators (snd (addCollaborator now lid u n w)) sid = storedCollaborators w sid"
proof -
  from assms have "getItem (snd (addCollaborator now lid u n w)) (ACTIVE_COLLABORATORS_KEY @ sid) =
                   getItem w (ACTIVE_COLLABORATORS_KEY @ sid)"
    by (intro getItem_after_join) simp_all
  then show ?thesis
    by (simp add: storedCollaborators_def)
qed

lemma join_unchanged_without_link:
  "fst (getCollaborationLink lid w) = None \<Longrightarrow> snd (addCollaborator now lid u n w) = w"
  by (simp add: addCollaborator_def split_beta)

lemma emails_after_join:
  assumes "fst (getCollaborationLink lid w) = Some link"
  shows "map email (storedCollaborators (snd (addCollaborator now lid u n w)) (spreadsheetId link)) =
           (if u \<in> set (map email (storedCollaborators w (spreadsheetId link)))
            then map email (storedCollaborators w (spreadsheetId link))
            else map email (storedCollaborators w (spreadsheetId link)) @ [u])"
proof -
  have ex: "(\<exists>c\<in>set (fst (getActiveCollaborators now (spreadsheetId link) w)). email c = u) \<longleftrightarrow>
            u \<in> set (map email (storedCollaborators w (spreadsheetId link)))"
    by (auto simp: fst_getActiveCollaborators)
  show ?thesis
    using assms
    by (simp add: stored_after_join ex map_email_mutateFirst fields_getActiveCollaborators
          del: set_map)
qed

lemma uniqueEmails_join: "uniqueEmails w sid \<Longrightarrow> uniqueEmails (snd (addCollaborator now lid u n w)) sid"
proof (cases "fst (getCollaborationLink lid w)")
  case None
  assume "uniqueEmails w sid"
  with None show ?thesis by (simp add: join_unchanged_without_link)
next
  case (Some link)
  assume u: "uniqueEmails w sid"
  show ?thesis
  proof (cases "sid = spreadsheetId link")
    case True
    with u Some show ?thesis
      by (simp add: uniqueEmails_def emails_after_join del: set_map)
  next
    case False
    with u Some show ?thesis
      by (simp add: uniqueEmails_def stored_other_after_join)
  qed
qed

lemma stored_after_create:
  "storedCollaborators (snd (createCollaborationLink now rnd sid' title owner w)) sid =
   storedCollaborators w sid"
  by (simp add: createCollaborationLink_def Let_def split_beta storedCollaborators_def)

lemma stored_after_heartbeat:
  "storedCollaborators (updateCollaboratorActivity now sid' u w) sid =
     (if sid = sid' \<and> u \<in> set (map email (storedCollaborators w sid))
      then mutateFirst (\<lambda>c. email c = u) (\<lambda>c. c\<lparr>lastActive := now, isActive := True\<rparr>)
             (fst (getActiveCollaborators now sid w))
      else storedCollaborators w sid)"
proof -
  have "find (\<lambda>c. email c = u) (fst (getActiveCollaborators now sid' w)) = None \<longleftrightarrow>
        u \<notin> set (map email (storedCollaborators w sid'))"
    by (auto simp: find_None_iff fst_getActiveCollaborators)
  then show ?thesis
    by (auto simp: updateCollaboratorActivity_def split_beta storedCollaborators_def
          split: option.splits)
qed

lemma stored_after_remove:
  "storedCollaborators (removeCollaborator now sid' u w) sid =
     (if sid = sid'
      then filter (\<lambda>c. email c \<noteq> u) (fst (getActiveCollaborators now sid w))
      else storedCollaborators w sid)"
  by (simp add: removeCollaborator_def split_beta storedCollaborators_def)

lemma snd_some:
  "(\<And>x w'. snd (f x w') = w') \<Longrightarrow> snd (some f xs w) = w"
proof (induction xs)
  case Nil
  then show ?case by simp
next
  case (Cons x xs)
  from Cons.prems [of x w] have "f x w = (fst (f x w), w)"
    by (metis prod.collapse)
  with Cons show ?case
    by (cases "fst (f x w)") (simp_all add: split_beta)
qed

lemma snd_isSpreadsheetOwner [simp]: "snd (isSpreadsheetOwner sid u w) = w"
  by (simp add: isSpreadsheetOwner_def split_beta snd_some split: option.splits)

lemma uniqueEmails_perform: "uniqueEmails w sid \<Longrightarrow> uniqueEmails (perform op w) sid"
proof (cases op)
  case (Join now lid u n)
  assume "uniqueEmails w sid"
  with Join show ?thesis by (simp add: uniqueEmails_join)
next
  case (Heartbeat now sid' u)
  assume "uniqueEmails w sid"
  with Heartbeat show ?thesis
    by (auto simp add: uniqueEmails_def stored_after_heartbeat map_email_mutateFirst
          fields_getActiveCollaborators simp del: set_map)
next
  case (Remove now sid' u)
  assume "uniqueEmails w sid"
  then have "distinct (map email (fst (getActiveCollaborators now sid w)))"
    by (simp add: uniqueEmails_def fields_getActiveCollaborators)
  then have "distinct (map email (filter (\<lambda>c. email c \<noteq> u) (fst (getActiveCollaborators now sid w))))"
    by (rule distinct_map_filter)
  with Remove \<open>uniqueEmails w sid\<close> show ?thesis
    by (auto simp add: uniqueEmails_def stored_after_remove)
qed (simp_all add: uniqueEmails_def stored_after_create)

lemma uniqueEmails_run: "uniqueEmails w sid \<Longrightarrow> uniqueEmails (run ops w) sid"
  by (induction ops arbitrary: w) (simp_all add: uniqueEmails_perform)

lemma find_append_new:
  "\<forall>x\<in>set xs. \<not> P x \<Longrightarrow> P y \<Longrightarrow> find P (xs @ [y]) = Some y"
  by (induction xs) auto

lemma find_map_same:
  "(\<And>x. P (g x) = P x) \<Longrightarrow> find P (map g xs) = map_option g (find P xs)"
  by (induction xs) auto

lemma read_after_remove:
  "fst (getActiveCollaborators t sid' (removeCollaborator t1 sid u w)) =
     (if sid' = sid
      then filter (\<lambda>c. email c \<noteq> u) (fst (getActiveCollaborators t sid w))
      else fst (getActiveCollaborators t sid' w))"
  by (simp add: fst_getActiveCollaborators [of t] stored_after_remove)
     (simp add: fst_getActiveCollaborators filter_map comp_def)

lemma getItem_after_remove:
  "k \<noteq> ACTIVE_COLLABORATORS_KEY @ sid \<Longrightarrow>
     getItem (removeCollaborator t sid u w) k = getItem w k"
  by (simp add: removeCollaborator_def split_beta)

lemma activities_after_remove: "activities (removeCollaborator t sid u w) = activities w"
  by (simp add: removeCollaborator_def split_beta)

lemma access_after_join:
  assumes "fst (getCollaborationLink lid w) = Some link"
  shows "getItem (snd (addCollaborator now lid u n w)) (COLLABORATION_ACCESS_KEY @ u) =
           (if spreadsheetId link \<in> set (fst (getUserCollaborations u w))
            then getItem w (COLLABORATION_ACCESS_KEY @ u)
            else Some (Ids (fst (getUserCollaborations u w) @ [spreadsheetId link])))"
proof -
  have "getUserCollaborations u (setItem (ACTIVE_COLLABORATORS_KEY @ sid) v w) =
          (fst (getUserCollaborations u w), setItem (ACTIVE_COLLABORATORS_KEY @ sid) v w)" for sid v
    by (simp add: getUserCollaborations_def split: option.splits stored.splits)
  with assms show ?thesis
    by (simp add: addCollaborator_def split_beta Let_def)
qed

lemma activities_after_join:
  assumes "fst (getCollaborationLink lid w) = Some link"
  shows "activities (snd (addCollaborator now lid u n w)) =
           activities w @
           [\<lparr>recipient = ownerEmail link, kind = ''collaboration_joined'', relatedId = None,
             message = n @ '' joined '' @ [CHR 0x22] @ spreadsheetTitle link @ [CHR 0x22]\<rparr>]"
  using assms
  by (simp add: addCollaborator_def split_beta Let_def notifyOwnerOfNewCollaborator_def
        trackActivity_def)

text \<open>The join reads the link's document, owner and title, and nothing else of it.\<close>

lemma roster_key_after_join:
  "fst (getCollaborationLink lid w) = Some link \<Longrightarrow>
   getItem (snd (addCollaborator now lid u n w)) (ACTIVE_COLLABORATORS_KEY @ spreadsheetId link) =
     Some (Collaborators
       (let cs = fst (getActiveCollaborators now (spreadsheetId link) w)
        in if (\<exists>c\<in>set cs. email c = u)
           then mutateFirst (\<lambda>c. email c = u) (\<lambda>c. c\<lparr>lastActive := now, isActive := True\<rparr>) cs
           else cs @ [\<lparr>email = u, name = n, joinedAt = now, lastActive = now, isActive = True\<rparr>]))"
  by (simp add: addCollaborator_def split_beta Let_def findIndex_nonneg_iff findIndex_refresh)

lemma reads_after_link_write:
  "fst (getActiveCollaborators now sid (setItem (COLLABORATION_LINKS_KEY @ lid) v w)) =
     fst (getActiveCollaborators now sid w)"
  "fst (getUserCollaborations u (setItem (COLLABORATION_LINKS_KEY @ lid) v w)) =
     fst (getUserCollaborations u w)"
  "fst (getCollaborationLink lid (setItem (COLLABORATION_LINKS_KEY @ lid) (Link l) w)) = Some l"
  by (simp_all add: getActiveCollaborators_def getUserCollaborations_def getCollaborationLink_def
        split: option.splits stored.splits)

lemma expiry_independent:
  assumes link: "fst (getCollaborationLink lid w) = Some link"
  shows "fst (addCollaborator now lid u n
                (setItem (COLLABORATION_LINKS_KEY @ lid) (Link (link\<lparr>expiresAt := x\<rparr>)) w)) =
         fst (addCollaborator now lid u n w)"
    and "k \<noteq> COLLABORATION_LINKS_KEY @ lid \<Longrightarrow>
         getItem (snd (addCollaborator now lid u n
                (setItem (COLLABORATION_LINKS_KEY @ lid) (Link (link\<lparr>expiresAt := x\<rparr>)) w))) k =
         getItem (snd (addCollaborator now lid u n w)) k"
    and "activities (snd (addCollaborator now lid u n
                (setItem (COLLABORATION_LINKS_KEY @ lid) (Link (link\<lparr>expiresAt := x\<rparr>)) w))) =
         activities (snd (addCollaborator now lid u n w))"
proof -
  define w' where "w' = setItem (COLLABORATION_LINKS_KEY @ lid) (Link (link\<lparr>expiresAt := x\<rparr>)) w"
  have link': "fst (getCollaborationLink lid w') = Some (link\<lparr>expiresAt := x\<rparr>)"
    by (simp add: w'_def reads_after_link_write)
  show "fst (addCollaborator now lid u n
                (setItem (COLLABORATION_LINKS_KEY @ lid) (Link (link\<lparr>expiresAt := x\<rparr>)) w)) =
         fst (addCollaborator now lid u n w)"
    using link link' unfolding w'_def by (simp add: fst_addCollaborator)
  show "activities (snd (addCollaborator now lid u n
                (setItem (COLLABORATION_LINKS_KEY @ lid) (Link (link\<lparr>expiresAt := x\<rparr>)) w))) =
         activities (snd (addCollaborator now lid u n w))"
    using activities_after_join [OF link, where u = u and now = now and n = n]
          activities_after_join [OF link', where u = u and now = now and n = n]
    by (simp add: w'_def)
  show "getItem (snd (addCollaborator now lid u n
                (setItem (COLLABORATION_LINKS_KEY @ lid) (Link (link\<lparr>expiresAt := x\<rparr>)) w))) k =
         getItem (snd (addCollaborator now lid u n w)) k"
    if k: "k \<noteq> COLLABORATION_LINKS_KEY @ lid"
  proof -
    consider (roster) "k = ACTIVE_COLLABORATORS_KEY @ spreadsheetId link"
      | (access) "k = COLLABORATION_ACCESS_KEY @ u"
      | (other) "k \<noteq> ACTIVE_COLLABORATORS_KEY @ spreadsheetId link" "k \<noteq> COLLABORATION_ACCESS_KEY @ u"
      by blast
    then show ?thesis
    proof cases
      case roster
      with roster_key_after_join [OF link, where u = u and now = now and n = n]
           roster_key_after_join [OF link', where u = u and now = now and n = n]
      show ?thesis
        by (simp add: w'_def reads_after_link_write)
    next
      case access
      with access_after_join [OF link, where u = u and now = now and n = n]
           access_after_join [OF link', where u = u and now = now and n = n]
      show ?thesis
        by (simp add: w'_def reads_after_link_write)
    next
      case other
      with getItem_after_join [OF link, where k = k and u = u and now = now and n = n]
           getItem_after_join [OF link', where k = k and u = u and now = now and n = n] k
      show ?thesis
        by (simp add: w'_def)
    qed
  qed
qed

section \<open>Facts about URLs\<close>

lemma not_linkIdChar:
  "\<not> linkIdChar (CHR ''&'')" "\<not> linkIdChar (CHR ''#'')"
  "\<not> linkIdChar (CHR ''+'')" "\<not> linkIdChar (CHR ''%'')"
  by (simp_all add: linkIdChar_def)

lemma linkIdChar_plain:
  assumes "\<forall>c\<in>set s. linkIdChar c"
  shows "CHR ''&'' \<notin> set s" "CHR ''#'' \<notin> set s" "CHR ''+'' \<notin> set s" "CHR ''%'' \<notin> set s"
  using assms not_linkIdChar by blast+

lemma takeWhile_absent: "d \<notin> set xs \<Longrightarrow> takeWhile (\<lambda>c. c \<noteq> d) xs = xs"
  by (induction xs) auto

lemma dropWhile_absent: "d \<notin> set xs \<Longrightarrow> dropWhile (\<lambda>c. c \<noteq> d) xs = []"
  by (induction xs) auto

lemma dropWhile_first: "d \<notin> set xs \<Longrightarrow> dropWhile (\<lambda>c. c \<noteq> d) (xs @ d # ys) = d # ys"
  by (induction xs) auto

lemma split_on_none: "d \<notin> set s \<Longrightarrow> split_on d s = [s]"
  by (induction s) auto

lemma percent_decode_none: "CHR ''%'' \<notin> set s \<Longrightarrow> percent_decode s = s"
  by (induction s rule: percent_decode.induct) auto

lemma urldecode_plain:
  "CHR ''+'' \<notin> set s \<Longrightarrow> CHR ''%'' \<notin> set s \<Longrightarrow> urldecode s = s"
proof -
  assume p: "CHR ''+'' \<notin> set s" and q: "CHR ''%'' \<notin> set s"
  from p have "map (\<lambda>c. if c = CHR ''+'' then CHR '' '' else c) s = s"
    by (induction s) auto
  with q show ?thesis
    by (simp add: urldecode_def percent_decode_none)
qed

lemma location_search_of_link:
  assumes "CHR ''?'' \<notin> set origin" and "CHR ''#'' \<notin> set origin" and "CHR ''#'' \<notin> set lid"
  shows "location_search (getCollaborationLinkUrl origin lid) = ''?collab='' @ lid"
proof -
  have t: "takeWhile (\<lambda>c. c \<noteq> CHR ''#'') (origin @ ''?collab='' @ lid) = origin @ ''?collab='' @ lid"
    using assms(2,3) by (intro takeWhile_absent) simp
  have d: "dropWhile (\<lambda>c. c \<noteq> CHR ''?'') (origin @ ''?collab='' @ lid) = ''?collab='' @ lid"
    using dropWhile_first [OF assms(1), of "''collab='' @ lid"] by simp
  show ?thesis
    unfolding location_search_def getCollaborationLinkUrl_def t d by simp
qed

lemma parse_plain_search:
  assumes "CHR ''&'' \<notin> set lid" and "CHR ''+'' \<notin> set lid" and "CHR ''%'' \<notin> set lid"
  shows "parseCollaborationLink (''?collab='' @ lid) = Some lid"
proof -
  have "split_on (CHR ''&'') (''collab='' @ lid) = [''collab='' @ lid]"
    using assms(1) by (intro split_on_none) simp
  then have "URLSearchParams (''?collab='' @ lid) = [parse_pair (''collab='' @ lid)]"
    by (simp add: URLSearchParams_def)
  moreover have "parse_pair (''collab='' @ lid) = (''collab'', lid)"
    using assms(2,3) by (simp add: parse_pair_def urldecode_plain)
  ultimately show ?thesis
    by (simp add: parseCollaborationLink_def URLSearchParams_get_def)
qed

lemma no_query_no_link: "CHR ''?'' \<notin> set url \<Longrightarrow> parseCollaborationLink (location_search url) = None"
proof -
  assume "CHR ''?'' \<notin> set url"
  then have "CHR ''?'' \<notin> set (takeWhile (\<lambda>c. c \<noteq> CHR ''#'') url)"
    by (auto dest: set_takeWhileD)
  then have q: "dropWhile (\<lambda>c. c \<noteq> CHR ''?'') (takeWhile (\<lambda>c. c \<noteq> CHR ''#'') url) = []"
    by (rule dropWhile_absent)
  have "location_search url = []"
    unfolding location_search_def q by simp
  then show ?thesis
    by (simp add: parseCollaborationLink_def URLSearchParams_def URLSearchParams_get_def)
qed

lemma digit_linkIdChar: "k < 10 \<Longrightarrow> linkIdChar (''0123456789'' ! k)"
proof -
  assume "k < 10"
  then have "k \<in> {0, 1, 2, 3, 4, 5, 6, 7, 8, 9}"
    by auto
  then show ?thesis
    by (auto simp: linkIdChar_def)
qed

lemma show_nat_linkIdChar: "\<forall>c\<in>set (show_nat n). linkIdChar c"
proof (induction n rule: show_nat.induct)
  case (1 n)
  show ?case
  proof (cases "n < 10")
    case True
    then have "show_nat n = [''0123456789'' ! n]"
      by (subst show_nat.simps) simp
    with True show ?thesis
      by (simp add: digit_linkIdChar del: nth_Cons_numeral)
  next
    case False
    then have "show_nat n = show_nat (n div 10) @ [''0123456789'' ! (n mod 10)]"
      by (subst show_nat.simps) simp
    moreover have "linkIdChar (''0123456789'' ! (n mod 10))"
      by (rule digit_linkIdChar) simp
    ultimately show ?thesis
      using 1 False by (auto simp del: nth_Cons_numeral)
  qed
qed

lemma generated_linkIdChar:
  assumes "0 \<le> now" and "\<forall>c\<in>set rnd. linkIdChar c"
  shows "\<forall>c\<in>set (generateLinkId now rnd). linkIdChar c"
proof -
  have "\<forall>c\<in>set ''collab_''. linkIdChar c" "linkIdChar (CHR ''_'')"
    by (simp_all add: linkIdChar_def)
  with assms show_nat_linkIdChar [of "nat now"] show ?thesis
    by (auto simp: generateLinkId_def show_int_def)
qed

section \<open>Facts about ownership\<close>

lemma fst_some:
  "(\<And>x w'. snd (f x w') = w') \<Longrightarrow> fst (some f xs w) = (\<exists>x\<in>set xs. fst (f x w))"
proof (induction xs)
  case Nil
  then show ?case by simp
next
  case (Cons x xs)
  from Cons.prems [of x w] have "f x w = (fst (f x w), w)"
    by (metis prod.collapse)
  with Cons show ?case
    by (cases "fst (f x w)") (simp_all add: split_beta)
qed

lemma fst_isSpreadsheetOwner:
  "fst (isSpreadsheetOwner sid e w) \<longleftrightarrow>
     (\<exists>lid\<in>set (fst (getOwnerLinks e w)).
        \<exists>link. fst (getCollaborationLink lid w) = Some link \<and> spreadsheetId link = sid)"
proof -
  define g where "g = (\<lambda>lid w'. case fst (getCollaborationLink lid w') of
                                   None \<Rightarrow> (False, w')
                                 | Some link \<Rightarrow> (spreadsheetId link = sid, w'))"
  have ro: "snd (g lid w') = w'" for lid w'
    by (simp add: g_def split: option.splits)
  have v: "fst (g lid w') \<longleftrightarrow>
           (\<exists>link. fst (getCollaborationLink lid w') = Some link \<and> spreadsheetId link = sid)" for lid w'
    by (simp add: g_def split: option.splits)
  have "isSpreadsheetOwner sid e w = some g (fst (getOwnerLinks e w)) w"
    by (simp add: isSpreadsheetOwner_def split_beta g_def)
  then show ?thesis
    by (simp add: fst_some [of g, OF ro] v)
qed

lemma fst_create:
  "fst (createCollaborationLink t rnd sid title a w) =
     \<lparr>linkId = generateLinkId t rnd, spreadsheetId = sid, spreadsheetTitle = title,
      ownerEmail = a, createdAt = t, expiresAt = None\<rparr>"
  by (simp add: createCollaborationLink_def Let_def split_beta)

lemma link_after_create:
  "fst (getCollaborationLink lid' (snd (createCollaborationLink t rnd sid title a w))) =
     (if lid' = generateLinkId t rnd
      then Some \<lparr>linkId = generateLinkId t rnd, spreadsheetId = sid, spreadsheetTitle = title,
                 ownerEmail = a, createdAt = t, expiresAt = None\<rparr>
      else fst (getCollaborationLink lid' w))"
  by (simp add: createCollaborationLink_def Let_def split_beta getCollaborationLink_def
        split: option.splits stored.splits)

lemma ownerLinks_after_create:
  "fst (getOwnerLinks e (snd (createCollaborationLink t rnd sid title a w))) =
     (if e = a then fst (getOwnerLinks a w) @ [generateLinkId t rnd] else fst (getOwnerLinks e w))"
  by (simp add: createCollaborationLink_def Let_def split_beta getOwnerLinks_def
        split: option.splits stored.splits)

lemma ownerLinks_after_join:
  "fst (getOwnerLinks e (snd (addCollaborator now lid u n w))) = fst (getOwnerLinks e w)"
proof (cases "fst (getCollaborationLink lid w)")
  case None
  then show ?thesis by (simp add: join_unchanged_without_link)
next
  case (Some link)
  then have "getItem (snd (addCollaborator now lid u n w)) (OWNER_LINKS_KEY @ e) =
             getItem w (OWNER_LINKS_KEY @ e)"
    by (intro getItem_after_join) simp_all
  then show ?thesis
    by (simp add: getOwnerLinks_def split: option.splits stored.splits)
qed

lemma owner_after_join:
  "fst (isSpreadsheetOwner sid e (snd (addCollaborator now lid u n w))) =
   fst (isSpreadsheetOwner sid e w)"
  by (simp add: fst_isSpreadsheetOwner ownerLinks_after_join link_after_join)

section \<open>The example worlds, evaluated\<close>

lemma sharedWorld_eval:
  "sharedWorld =
     \<lparr>localStorage =
        [COLLABORATION_LINKS_KEY @ ''collab_5_x1'' \<mapsto>
           Link \<lparr>linkId = ''collab_5_x1'', spreadsheetId = ''Budget2024'',
                 spreadsheetTitle = ''Budget'', ownerEmail = ''a@x.com'', createdAt = 5,
                 expiresAt = None\<rparr>,
         OWNER_LINKS_KEY @ ''a@x.com'' \<mapsto> Ids [''collab_5_x1''],
         COLLABORATION_LINKS_KEY @ ''collab_6_y2'' \<mapsto>
           Link \<lparr>linkId = ''collab_6_y2'', spreadsheetId = ''Plan'',
                 spreadsheetTitle = ''Plan Q3'', ownerEmail = ''a@x.com'', createdAt = 6,
                 expiresAt = None\<rparr>,
         OWNER_LINKS_KEY @ ''a@x.com'' \<mapsto> Ids [''collab_5_x1'', ''collab_6_y2'']],
      activities = []\<rparr>"
  by (simp add: sharedWorld_def createCollaborationLink_def Let_def split_beta generateLinkId_def
        show_int_def show_nat.simps getOwnerLinks_def getItem_def emptyWorld_def setItem_def)

lemma sharedWorld_links:
  "fst (getCollaborationLink ''collab_5_x1'' sharedWorld) =
     Some \<lparr>linkId = ''collab_5_x1'', spreadsheetId = ''Budget2024'',
            spreadsheetTitle = ''Budget'', ownerEmail = ''a@x.com'', createdAt = 5,
            expiresAt = None\<rparr>"
  "fst (getCollaborationLink ''collab_6_y2'' sharedWorld) =
     Some \<lparr>linkId = ''collab_6_y2'', spreadsheetId = ''Plan'',
            spreadsheetTitle = ''Plan Q3'', ownerEmail = ''a@x.com'', createdAt = 6,
            expiresAt = None\<rparr>"
  "storedCollaborators sharedWorld sid = []"
  by (simp_all add: sharedWorld_eval getCollaborationLink_def getItem_def storedCollaborators_def)

lemma bob_joined:
  "storedCollaborators (snd (addCollaborator 9 ''collab_5_x1'' ''b@x.com'' ''Bob'' sharedWorld))
     ''Budget2024'' =
   [\<lparr>email = ''b@x.com'', name = ''Bob'', joinedAt = 9, lastActive = 9, isActive = True\<rparr>]"
  using stored_after_join [OF sharedWorld_links(1), of 9 "''b@x.com''" "''Bob''"]
  by (simp add: fst_getActiveCollaborators sharedWorld_links)

lemma bob_rejoined:
  "storedCollaborators
     (snd (addCollaborator 20 ''collab_5_x1'' ''b@x.com'' ''Robert''
        (snd (addCollaborator 9 ''collab_5_x1'' ''b@x.com'' ''Bob'' sharedWorld))))
     ''Budget2024'' =
   [\<lparr>email = ''b@x.com'', name = ''Bob'', joinedAt = 9, lastActive = 20, isActive = True\<rparr>]"
proof -
  have l: "fst (getCollaborationLink ''collab_5_x1''
             (snd (addCollaborator 9 ''collab_5_x1'' ''b@x.com'' ''Bob'' sharedWorld))) =
           Some \<lparr>linkId = ''collab_5_x1'', spreadsheetId = ''Budget2024'',
                  spreadsheetTitle = ''Budget'', ownerEmail = ''a@x.com'', createdAt = 5,
                  expiresAt = None\<rparr>"
    by (simp add: link_after_join sharedWorld_links)
  from stored_after_join [OF l, of 20 "''b@x.com''" "''Robert''"] show ?thesis
    by (simp add: fst_getActiveCollaborators bob_joined)
qed

lemma bob_link:
  "fst (getCollaborationLink ''collab_5_x1''
          (snd (addCollaborator 9 ''collab_5_x1'' ''b@x.com'' ''Bob'' sharedWorld))) =
     Some \<lparr>linkId = ''collab_5_x1'', spreadsheetId = ''Budget2024'',
            spreadsheetTitle = ''Budget'', ownerEmail = ''a@x.com'', createdAt = 5,
            expiresAt = None\<rparr>"
  by (simp add: link_after_join sharedWorld_links)

lemma expiredWorld_link:
  "fst (getCollaborationLink ''collab_1_old'' expiredWorld) =
     Some \<lparr>linkId = ''collab_1_old'', spreadsheetId = ''Budget2024'',
            spreadsheetTitle = ''Budget'', ownerEmail = ''a@x.com'', createdAt = 0,
            expiresAt = Some 0\<rparr>"
  "storedCollaborators expiredWorld sid = []"
  by (simp_all add: expiredWorld_def getCollaborationLink_def getItem_def storedCollaborators_def)

lemma expired_joined:
  "storedCollaborators (snd (addCollaborator 1000 ''collab_1_old'' ''b@x.com'' ''Bob'' expiredWorld))
     ''Budget2024'' =
   [\<lparr>email = ''b@x.com'', name = ''Bob'', joinedAt = 1000, lastActive = 1000, isActive = True\<rparr>]"
  using stored_after_join [OF expiredWorld_link(1), of 1000 "''b@x.com''" "''Bob''"]
  by (simp add: fst_getActiveCollaborators expiredWorld_link)

lemma bob_access:
  "fst (getUserCollaborations ''b@x.com'' sharedWorld) = []"
  "fst (getUserCollaborations ''b@x.com''
          (snd (addCollaborator 9 ''collab_5_x1'' ''b@x.com'' ''Bob'' sharedWorld))) = [''Budget2024'']"
proof -
  show a: "fst (getUserCollaborations ''b@x.com'' sharedWorld) = []"
    by (simp add: getUserCollaborations_def sharedWorld_eval getItem_def)
  from access_after_join [OF sharedWorld_links(1), where u = "''b@x.com''" and now = 9 and n = "''Bob''"] a
  show "fst (getUserCollaborations ''b@x.com''
          (snd (addCollaborator 9 ''collab_5_x1'' ''b@x.com'' ''Bob'' sharedWorld))) = [''Budget2024'']"
    by (simp add: getUserCollaborations_def)
qed

lemma generated_ids:
  "generateLinkId 5 ''x1'' = ''collab_5_x1''"
  "generateLinkId 3 ''b0'' = ''collab_3_b0''"
  by (simp_all add: generateLinkId_def show_int_def show_nat.simps)

lemma emptyWorld_reads:
  "fst (getOwnerLinks e emptyWorld) = []"
  "fst (getCollaborationLink lid emptyWorld) = None"
  "storedCollaborators emptyWorld sid = []"
  by (simp_all add: getOwnerLinks_def getCollaborationLink_def storedCollaborators_def
        getItem_def emptyWorld_def)

lemma expired_join_effects:
  "getItem (snd (addCollaborator 1000 ''collab_1_old'' ''b@x.com'' ''Bob'' expiredWorld))
     (ACTIVE_COLLABORATORS_KEY @ ''Budget2024'') =
     Some (Collaborators
       [\<lparr>email = ''b@x.com'', name = ''Bob'', joinedAt = 1000, lastActive = 1000, isActive = True\<rparr>])"
  "getItem (snd (addCollaborator 1000 ''collab_1_old'' ''b@x.com'' ''Bob'' expiredWorld))
     (COLLABORATION_ACCESS_KEY @ ''b@x.com'') = Some (Ids [''Budget2024''])"
  "activities (snd (addCollaborator 1000 ''collab_1_old'' ''b@x.com'' ''Bob'' expiredWorld)) =
     [\<lparr>recipient = ''a@x.com'', kind = ''collaboration_joined'', relatedId = None,
       message = ''Bob'' @ '' joined '' @ [CHR 0x22] @ ''Budget'' @ [CHR 0x22]\<rparr>]"
proof -
  have a: "fst (getUserCollaborations ''b@x.com'' expiredWorld) = []"
    and r: "fst (getActiveCollaborators 1000 ''Budget2024'' expiredWorld) = []"
    and l: "activities expiredWorld = []"
    by (simp_all add: getUserCollaborations_def getActiveCollaborators_def expiredWorld_def
          getItem_def)
  from roster_key_after_join [OF expiredWorld_link(1), where u = "''b@x.com''" and now = 1000
         and n = "''Bob''"] r
  show "getItem (snd (addCollaborator 1000 ''collab_1_old'' ''b@x.com'' ''Bob'' expiredWorld))
     (ACTIVE_COLLABORATORS_KEY @ ''Budget2024'') =
     Some (Collaborators
       [\<lparr>email = ''b@x.com'', name = ''Bob'', joinedAt = 1000, lastActive = 1000, isActive = True\<rparr>])"
    by simp
  from access_after_join [OF expiredWorld_link(1), where u = "''b@x.com''" and now = 1000
         and n = "''Bob''"] a
  show "getItem (snd (addCollaborator 1000 ''collab_1_old'' ''b@x.com'' ''Bob'' expiredWorld))
     (COLLABORATION_ACCESS_KEY @ ''b@x.com'') = Some (Ids [''Budget2024''])"
    by simp
  from activities_after_join [OF expiredWorld_link(1), where u = "''b@x.com''" and now = 1000
         and n = "''Bob''"] l
  show "activities (snd (addCollaborator 1000 ''collab_1_old'' ''b@x.com'' ''Bob'' expiredWorld)) =
     [\<lparr>recipient = ''a@x.com'', kind = ''collaboration_joined'', relatedId = None,
       message = ''Bob'' @ '' joined '' @ [CHR 0x22] @ ''Budget'' @ [CHR 0x22]\<rparr>]"
    by simp
qed

section \<open>Joining through a link\<close>

text \<open>
  C1, as the code has it. Let \<open>lid\<close> resolve to a link of document \<open>D\<close>, in a world whose
  stored roster of \<open>D\<close> holds at most one record per email. Then \<open>addCollaborator\<close>
  returns the boolean \<open>true\<close>; the document identifier is not part of its result (the
  caller reads it from the link it resolved itself). A roster read less than five minutes
  after the join holds exactly one entry with the user's email, and that entry is active.
\<close>

theorem join_registers:
  assumes "fst (getCollaborationLink lid w) = Some link"
    and "uniqueEmails w (spreadsheetId link)"
    and "later - now < 300000"
  shows "fst (addCollaborator now lid u n w) = True \<and>
         (\<exists>c. filter (\<lambda>c. email c = u)
                 (fst (getActiveCollaborators later (spreadsheetId link)
                        (snd (addCollaborator now lid u n w)))) = [c] \<and>
              isActive c)"
proof -
  from joined_record [OF assms(1,2), of u now n] obtain c where
    c: "filter (\<lambda>c. email c = u)
          (storedCollaborators (snd (addCollaborator now lid u n w)) (spreadsheetId link)) = [c]"
       "lastActive c = now"
    by blast
  with assms(3) have
    "\<exists>c. filter (\<lambda>c. email c = u)
            (fst (getActiveCollaborators later (spreadsheetId link)
                   (snd (addCollaborator now lid u n w)))) = [c] \<and> isActive c"
    by (simp add: filter_email_read fiveMinutes_def)
  with assms(1) show ?thesis
    by (simp add: fst_addCollaborator)
qed

theorem join_registers_witness:
  "fst (getCollaborationLink ''collab_5_x1'' sharedWorld) =
     Some \<lparr>linkId = ''collab_5_x1'', spreadsheetId = ''Budget2024'',
            spreadsheetTitle = ''Budget'', ownerEmail = ''a@x.com'', createdAt = 5,
            expiresAt = None\<rparr> \<and>
   uniqueEmails sharedWorld ''Budget2024'' \<and>
   (10::int) - 9 < 300000 \<and>
   fst (addCollaborator 9 ''collab_5_x1'' ''b@x.com'' ''Bob'' sharedWorld) = True \<and>
   (\<exists>c. filter (\<lambda>c. email c = ''b@x.com'')
          (fst (getActiveCollaborators 10 ''Budget2024''
                 (snd (addCollaborator 9 ''collab_5_x1'' ''b@x.com'' ''Bob'' sharedWorld)))) = [c] \<and>
        isActive c)"
proof -
  have u: "uniqueEmails sharedWorld ''Budget2024''"
    by (simp add: uniqueEmails_def sharedWorld_links)
  have t: "(10::int) - 9 < 300000"
    by simp
  from join_registers [OF sharedWorld_links(1) _ t, of "''b@x.com''" "''Bob''"] u t
  show ?thesis
    by (simp add: sharedWorld_links)
qed

text \<open>
  C1 as stated says the call returns the identifier of the document. Joining through the
  links of two different documents returns the same value, the flag \<open>true\<close>, both times.
\<close>

theorem join_returns_flag_counterexample:
  "fst (addCollaborator 9 ''collab_5_x1'' ''b@x.com'' ''Bob'' sharedWorld) = True \<and>
   fst (addCollaborator 9 ''collab_6_y2'' ''b@x.com'' ''Bob'' sharedWorld) = True \<and>
   map_option spreadsheetId (fst (getCollaborationLink ''collab_5_x1'' sharedWorld)) = Some ''Budget2024'' \<and>
   map_option spreadsheetId (fst (getCollaborationLink ''collab_6_y2'' sharedWorld)) = Some ''Plan''"
  by (simp add: fst_addCollaborator sharedWorld_links)

section \<open>One record per document and email\<close>

text \<open>
  C2. The empty store has at most one collaborator record per (document, email), and every
  sequence of calls of the module keeps it so. When a user joins twice through a link, the
  second join leaves the emails of the roster as the first join left them (no second
  record), keeps the \<open>joinedAt\<close> that the roster held after the first join (the instant
  of the first join, when the user was not on the roster before it), and sets
  \<open>lastActive\<close> to the instant of the second join.
\<close>

theorem one_record_per_email:
  "(\<forall>sid. uniqueEmails emptyWorld sid) \<and>
   (uniqueEmails w sid \<longrightarrow> uniqueEmails (run ops w) sid) \<and>
   (fst (getCollaborationLink lid w) = Some link \<longrightarrow>
      (let w1 = snd (addCollaborator t1 lid u n1 w);
           w2 = snd (addCollaborator t2 lid u n2 w1);
           r1 = storedCollaborators w1 (spreadsheetId link);
           r2 = storedCollaborators w2 (spreadsheetId link)
       in map email r2 = map email r1 \<and>
          (\<exists>c1 c2. find (\<lambda>c. email c = u) r1 = Some c1 \<and>
                   find (\<lambda>c. email c = u) r2 = Some c2 \<and>
                   joinedAt c2 = joinedAt c1 \<and> lastActive c2 = t2 \<and> isActive c2 \<and>
                   (u \<notin> set (map email (storedCollaborators w (spreadsheetId link))) \<longrightarrow>
                      joinedAt c2 = t1))))"
proof (intro conjI impI)
  show "\<forall>sid. uniqueEmails emptyWorld sid"
    by (simp add: uniqueEmails_def storedCollaborators_def getItem_def emptyWorld_def)
next
  assume "uniqueEmails w sid"
  then show "uniqueEmails (run ops w) sid"
    by (rule uniqueEmails_run)
next
  assume link: "fst (getCollaborationLink lid w) = Some link"
  define w1 where "w1 = snd (addCollaborator t1 lid u n1 w)"
  define w2 where "w2 = snd (addCollaborator t2 lid u n2 w1)"
  define r1 where "r1 = storedCollaborators w1 (spreadsheetId link)"
  define r2 where "r2 = storedCollaborators w2 (spreadsheetId link)"
  have link1: "fst (getCollaborationLink lid w1) = Some link"
    using link by (simp add: w1_def link_after_join)
  have mem: "u \<in> set (map email r1)"
    using link by (simp add: r1_def w1_def emails_after_join del: set_map)
  then obtain c1 where c1: "find (\<lambda>c. email c = u) r1 = Some c1"
    by (cases "find (\<lambda>c. email c = u) r1") (auto simp: find_None_iff)
  have ex: "\<exists>c\<in>set (fst (getActiveCollaborators t2 (spreadsheetId link) w1)). email c = u"
    using mem by (auto simp: fst_getActiveCollaborators r1_def)
  have r2: "r2 = mutateFirst (\<lambda>c. email c = u) (\<lambda>c. c\<lparr>lastActive := t2, isActive := True\<rparr>)
                   (fst (getActiveCollaborators t2 (spreadsheetId link) w1))"
    using link1 ex by (simp add: r2_def w2_def stored_after_join)
  have emails: "map email r2 = map email r1"
    by (simp add: r2 map_email_mutateFirst fields_getActiveCollaborators r1_def)
  have "find (\<lambda>c. email c = u) (fst (getActiveCollaborators t2 (spreadsheetId link) w1)) =
          Some (c1\<lparr>isActive := t2 - lastActive c1 < fiveMinutes\<rparr>)"
    using c1 by (simp add: fst_getActiveCollaborators r1_def find_map_same)
  then have "find (\<lambda>c. email c = u) r2 =
          Some (c1\<lparr>isActive := True, lastActive := t2\<rparr>)"
    by (simp add: r2 find_mutateFirst)
  moreover have "joinedAt c1 = t1"
    if absent: "u \<notin> set (map email (storedCollaborators w (spreadsheetId link)))"
  proof -
    define cs where "cs = fst (getActiveCollaborators t1 (spreadsheetId link) w)"
    from absent have no: "\<forall>c\<in>set cs. email c \<noteq> u"
      by (auto simp: cs_def fst_getActiveCollaborators)
    with link have "r1 = cs @ [\<lparr>email = u, name = n1, joinedAt = t1, lastActive = t1, isActive = True\<rparr>]"
      by (simp add: r1_def w1_def stored_after_join cs_def)
    with no c1 show ?thesis
      by (auto simp: find_append_new)
  qed
  moreover note c1 emails
  ultimately have "map email r2 = map email r1 \<and>
          (\<exists>c1 c2. find (\<lambda>c. email c = u) r1 = Some c1 \<and>
                   find (\<lambda>c. email c = u) r2 = Some c2 \<and>
                   joinedAt c2 = joinedAt c1 \<and> lastActive c2 = t2 \<and> isActive c2 \<and>
                   (u \<notin> set (map email (storedCollaborators w (spreadsheetId link))) \<longrightarrow>
                      joinedAt c2 = t1))"
    by simp
  then show "let w1 = snd (addCollaborator t1 lid u n1 w);
           w2 = snd (addCollaborator t2 lid u n2 w1);
           r1 = storedCollaborators w1 (spreadsheetId link);
           r2 = storedCollaborators w2 (spreadsheetId link)
       in map email r2 = map email r1 \<and>
          (\<exists>c1 c2. find (\<lambda>c. email c = u) r1 = Some c1 \<and>
                   find (\<lambda>c. email c = u) r2 = Some c2 \<and>
                   joinedAt c2 = joinedAt c1 \<and> lastActive c2 = t2 \<and> isActive c2 \<and>
                   (u \<notin> set (map email (storedCollaborators w (spreadsheetId link))) \<longrightarrow>
                      joinedAt c2 = t1))"
    by (simp add: Let_def w1_def w2_def r1_def r2_def)
qed

theorem one_record_per_email_witness:
  "uniqueEmails sharedWorld ''Budget2024'' \<and>
   uniqueEmails
     (run [Join 9 ''collab_5_x1'' ''b@x.com'' ''Bob'', Remove 12 ''Budget2024'' ''c@x.com'',
           Join 20 ''collab_5_x1'' ''b@x.com'' ''Robert'', Heartbeat 30 ''Budget2024'' ''b@x.com'']
        sharedWorld) ''Budget2024'' \<and>
   fst (getCollaborationLink ''collab_5_x1'' sharedWorld) =
     Some \<lparr>linkId = ''collab_5_x1'', spreadsheetId = ''Budget2024'',
            spreadsheetTitle = ''Budget'', ownerEmail = ''a@x.com'', createdAt = 5,
            expiresAt = None\<rparr> \<and>
   ''b@x.com'' \<notin> set (map email (storedCollaborators sharedWorld ''Budget2024'')) \<and>
   storedCollaborators (snd (addCollaborator 9 ''collab_5_x1'' ''b@x.com'' ''Bob'' sharedWorld))
     ''Budget2024'' =
     [\<lparr>email = ''b@x.com'', name = ''Bob'', joinedAt = 9, lastActive = 9, isActive = True\<rparr>] \<and>
   storedCollaborators
     (snd (addCollaborator 20 ''collab_5_x1'' ''b@x.com'' ''Robert''
        (snd (addCollaborator 9 ''collab_5_x1'' ''b@x.com'' ''Bob'' sharedWorld))))
     ''Budget2024'' =
     [\<lparr>email = ''b@x.com'', name = ''Bob'', joinedAt = 9, lastActive = 20, isActive = True\<rparr>]"
proof -
  have u: "uniqueEmails sharedWorld ''Budget2024''"
    by (simp add: uniqueEmails_def sharedWorld_links)
  from one_record_per_email
         [of sharedWorld "''Budget2024''"
            "[Join 9 ''collab_5_x1'' ''b@x.com'' ''Bob'', Remove 12 ''Budget2024'' ''c@x.com'',
              Join 20 ''collab_5_x1'' ''b@x.com'' ''Robert'', Heartbeat 30 ''Budget2024'' ''b@x.com'']"
            "''collab_5_x1''" _ 9 "''b@x.com''" "''Bob''" 20 "''Robert''"]
       u
  show ?thesis
    by (simp add: sharedWorld_links bob_joined bob_rejoined)
qed

section \<open>Liveness is computed at each read\<close>

text \<open>
  C3. Every collaborator that \<open>getActiveCollaborators\<close> returns carries
  \<open>isActive = (now - lastActive < 5 minutes)\<close>, whatever flag was stored: at five minutes
  or more the entry reads as inactive, at four minutes and 59 seconds as active. The
  \<open>lastActive\<close> and \<open>email\<close> read back are the stored ones, and the read returns the
  world it was given: nothing is written back.
\<close>

theorem roster_liveness:
  "(\<forall>c\<in>set (fst (getActiveCollaborators now sid w)).
       isActive c = (now - lastActive c < 300000)) \<and>
   (\<forall>c\<in>set (fst (getActiveCollaborators now sid w)).
       300000 \<le> now - lastActive c \<longrightarrow> \<not> isActive c) \<and>
   (\<forall>c\<in>set (fst (getActiveCollaborators now sid w)).
       lastActive c = now - 299000 \<longrightarrow> isActive c) \<and>
   map lastActive (fst (getActiveCollaborators now sid w)) =
     map lastActive (storedCollaborators w sid) \<and>
   map email (fst (getActiveCollaborators now sid w)) =
     map email (storedCollaborators w sid) \<and>
   snd (getActiveCollaborators now sid w) = w"
  by (auto simp: fst_getActiveCollaborators fiveMinutes_def)

theorem roster_liveness_witness:
  "fst (getActiveCollaborators 300000 ''Budget2024'' staleWorld) =
     [\<lparr>email = ''b@x.com'', name = ''Bob'', joinedAt = 0, lastActive = 0, isActive = False\<rparr>,
      \<lparr>email = ''c@x.com'', name = ''Cy'', joinedAt = 0, lastActive = 1000, isActive = True\<rparr>] \<and>
   snd (getActiveCollaborators 300000 ''Budget2024'' staleWorld) = staleWorld \<and>
   storedCollaborators staleWorld ''Budget2024'' =
     [\<lparr>email = ''b@x.com'', name = ''Bob'', joinedAt = 0, lastActive = 0, isActive = True\<rparr>,
      \<lparr>email = ''c@x.com'', name = ''Cy'', joinedAt = 0, lastActive = 1000, isActive = False\<rparr>]"
  using roster_liveness [of 300000 "''Budget2024''" staleWorld]
  by (simp add: getActiveCollaborators_def storedCollaborators_def staleWorld_def getItem_def
        fiveMinutes_def)

section \<open>Joining again under another name\<close>

text \<open>
  C5, as the code has it. When the roster of the link's document already holds a record
  for the user's email, \<open>addCollaborator\<close> writes that record back with \<open>lastActive\<close> set
  to the instant of the call and \<open>isActive\<close> set to \<open>true\<close>, and with every other field as
  it was: the stored \<open>name\<close> and \<open>joinedAt\<close> of every record of the roster are unchanged,
  whatever name the call passes.
\<close>

theorem rejoin_keeps_name:
  assumes "fst (getCollaborationLink lid w) = Some link"
    and "find (\<lambda>c. email c = u) (storedCollaborators w (spreadsheetId link)) = Some c0"
  shows "find (\<lambda>c. email c = u)
           (storedCollaborators (snd (addCollaborator now lid u n w)) (spreadsheetId link)) =
           Some (c0\<lparr>lastActive := now, isActive := True\<rparr>) \<and>
         map name (storedCollaborators (snd (addCollaborator now lid u n w)) (spreadsheetId link)) =
           map name (storedCollaborators w (spreadsheetId link)) \<and>
         map joinedAt (storedCollaborators (snd (addCollaborator now lid u n w)) (spreadsheetId link)) =
           map joinedAt (storedCollaborators w (spreadsheetId link))"
proof -
  define cs where "cs = fst (getActiveCollaborators now (spreadsheetId link) w)"
  from assms(2) have f: "find (\<lambda>c. email c = u) cs =
      Some (c0\<lparr>isActive := now - lastActive c0 < fiveMinutes\<rparr>)"
    by (simp add: cs_def fst_getActiveCollaborators find_map_same)
  then have "find (\<lambda>c. email c = u) cs \<noteq> None"
    by simp
  then have ex: "\<exists>c\<in>set cs. email c = u"
    by (auto simp: find_None_iff)
  with assms(1) have st:
    "storedCollaborators (snd (addCollaborator now lid u n w)) (spreadsheetId link) =
       mutateFirst (\<lambda>c. email c = u) (\<lambda>c. c\<lparr>lastActive := now, isActive := True\<rparr>) cs"
    by (simp add: stored_after_join cs_def)
  have n: "map name (mutateFirst P (\<lambda>c. c\<lparr>lastActive := now, isActive := True\<rparr>) xs) = map name xs"
    for P and xs :: "ActiveCollaborator list"
    by (induction xs) auto
  have j: "map joinedAt (mutateFirst P (\<lambda>c. c\<lparr>lastActive := now, isActive := True\<rparr>) xs) = map joinedAt xs"
    for P and xs :: "ActiveCollaborator list"
    by (induction xs) auto
  show ?thesis
    by (simp add: st find_mutateFirst f n j) (simp add: cs_def fields_getActiveCollaborators)
qed

theorem rejoin_keeps_name_witness:
  "fst (getCollaborationLink ''collab_5_x1''
          (snd (addCollaborator 9 ''collab_5_x1'' ''b@x.com'' ''Bob'' sharedWorld))) =
     Some \<lparr>linkId = ''collab_5_x1'', spreadsheetId = ''Budget2024'',
            spreadsheetTitle = ''Budget'', ownerEmail = ''a@x.com'', createdAt = 5,
            expiresAt = None\<rparr> \<and>
   find (\<lambda>c. email c = ''b@x.com'')
     (storedCollaborators (snd (addCollaborator 9 ''collab_5_x1'' ''b@x.com'' ''Bob'' sharedWorld))
        ''Budget2024'') =
     Some \<lparr>email = ''b@x.com'', name = ''Bob'', joinedAt = 9, lastActive = 9, isActive = True\<rparr> \<and>
   find (\<lambda>c. email c = ''b@x.com'')
     (storedCollaborators
        (snd (addCollaborator 20 ''collab_5_x1'' ''b@x.com'' ''Robert''
           (snd (addCollaborator 9 ''collab_5_x1'' ''b@x.com'' ''Bob'' sharedWorld))))
        ''Budget2024'') =
     Some \<lparr>email = ''b@x.com'', name = ''Bob'', joinedAt = 9, lastActive = 20, isActive = True\<rparr>"
proof -
  have f: "find (\<lambda>c. email c = ''b@x.com'')
     (storedCollaborators (snd (addCollaborator 9 ''collab_5_x1'' ''b@x.com'' ''Bob'' sharedWorld))
        (spreadsheetId \<lparr>linkId = ''collab_5_x1'', spreadsheetId = ''Budget2024'',
            spreadsheetTitle = ''Budget'', ownerEmail = ''a@x.com'', createdAt = 5,
            expiresAt = None\<rparr>)) =
     Some \<lparr>email = ''b@x.com'', name = ''Bob'', joinedAt = 9, lastActive = 9, isActive = True\<rparr>"
    by (simp add: bob_joined)
  from rejoin_keeps_name [OF bob_link f, of 20 "''Robert''"] f
  show ?thesis
    by (simp add: bob_link)
qed

text \<open>
  C5 as stated says the later join overwrites the stored name. Bob joins as \<open>Bob\<close> and
  again as \<open>Robert\<close>; the roster still names him \<open>Bob\<close>.
\<close>

theorem rejoin_overwrites_name_counterexample:
  "map name
     (storedCollaborators
        (snd (addCollaborator 20 ''collab_5_x1'' ''b@x.com'' ''Robert''
           (snd (addCollaborator 9 ''collab_5_x1'' ''b@x.com'' ''Bob'' sharedWorld))))
        ''Budget2024'') = [''Bob'']"
  by (simp add: bob_rejoined)

section \<open>Links with an expiry\<close>

text \<open>
  C6, as the code has it. No function of the module reads \<open>expiresAt\<close>. Joining through a
  link whose \<open>expiresAt\<close> lies before the instant of the call returns \<open>true\<close>, leaves
  the user on the roster of the link's document and leaves the link record as it was.
  The join does exactly what it does for the same link with any other expiry \<open>x\<close>, in
  particular with none: the flag returned, the value under every store key but the
  link's own, and the notification log are the same.
\<close>

theorem expiry_not_enforced:
  assumes "fst (getCollaborationLink lid w) = Some link"
    and "expiresAt link = Some e" and "e < now"
  shows "fst (addCollaborator now lid u n w) = True \<and>
         u \<in> set (map email
                (storedCollaborators (snd (addCollaborator now lid u n w)) (spreadsheetId link))) \<and>
         getItem (snd (addCollaborator now lid u n w)) (COLLABORATION_LINKS_KEY @ lid) =
           getItem w (COLLABORATION_LINKS_KEY @ lid) \<and>
         fst (addCollaborator now lid u n
                (setItem (COLLABORATION_LINKS_KEY @ lid) (Link (link\<lparr>expiresAt := x\<rparr>)) w)) =
           fst (addCollaborator now lid u n w) \<and>
         (\<forall>k. k \<noteq> COLLABORATION_LINKS_KEY @ lid \<longrightarrow>
              getItem (snd (addCollaborator now lid u n
                 (setItem (COLLABORATION_LINKS_KEY @ lid) (Link (link\<lparr>expiresAt := x\<rparr>)) w))) k =
              getItem (snd (addCollaborator now lid u n w)) k) \<and>
         activities (snd (addCollaborator now lid u n
                (setItem (COLLABORATION_LINKS_KEY @ lid) (Link (link\<lparr>expiresAt := x\<rparr>)) w))) =
           activities (snd (addCollaborator now lid u n w))"
proof (intro conjI allI impI)
  show "fst (addCollaborator now lid u n w) = True"
    using assms(1) by (simp add: fst_addCollaborator)
next
  show "u \<in> set (map email
                (storedCollaborators (snd (addCollaborator now lid u n w)) (spreadsheetId link)))"
    using assms(1) by (simp add: emails_after_join del: set_map)
next
  show "getItem (snd (addCollaborator now lid u n w)) (COLLABORATION_LINKS_KEY @ lid) =
           getItem w (COLLABORATION_LINKS_KEY @ lid)"
    using assms(1) by (intro getItem_after_join) simp_all
next
  show "fst (addCollaborator now lid u n
                (setItem (COLLABORATION_LINKS_KEY @ lid) (Link (link\<lparr>expiresAt := x\<rparr>)) w)) =
           fst (addCollaborator now lid u n w)"
    using assms(1) by (rule expiry_independent(1))
next
  fix k assume "k \<noteq> COLLABORATION_LINKS_KEY @ lid"
  with assms(1) show "getItem (snd (addCollaborator now lid u n
                 (setItem (COLLABORATION_LINKS_KEY @ lid) (Link (link\<lparr>expiresAt := x\<rparr>)) w))) k =
              getItem (snd (addCollaborator now lid u n w)) k"
    by (rule expiry_independent(2))
next
  show "activities (snd (addCollaborator now lid u n
                (setItem (COLLABORATION_LINKS_KEY @ lid) (Link (link\<lparr>expiresAt := x\<rparr>)) w))) =
           activities (snd (addCollaborator now lid u n w))"
    using assms(1) by (rule expiry_independent(3))
qed

theorem expiry_not_enforced_witness:
  "fst (getCollaborationLink ''collab_1_old'' expiredWorld) =
     Some \<lparr>linkId = ''collab_1_old'', spreadsheetId = ''Budget2024'',
            spreadsheetTitle = ''Budget'', ownerEmail = ''a@x.com'', createdAt = 0,
            expiresAt = Some 0\<rparr> \<and>
   (0::int) < 1000 \<and>
   fst (getCollaborationLink ''collab_1_old'' unexpiredWorld) =
     Some \<lparr>linkId = ''collab_1_old'', spreadsheetId = ''Budget2024'',
            spreadsheetTitle = ''Budget'', ownerEmail = ''a@x.com'', createdAt = 0,
            expiresAt = None\<rparr> \<and>
   fst (addCollaborator 1000 ''collab_1_old'' ''b@x.com'' ''Bob'' expiredWorld) = True \<and>
   ''b@x.com'' \<in> set (map email
     (storedCollaborators (snd (addCollaborator 1000 ''collab_1_old'' ''b@x.com'' ''Bob'' expiredWorld))
        ''Budget2024'')) \<and>
   fst (addCollaborator 1000 ''collab_1_old'' ''b@x.com'' ''Bob'' unexpiredWorld) = True \<and>
   getItem (snd (addCollaborator 1000 ''collab_1_old'' ''b@x.com'' ''Bob'' unexpiredWorld))
     (ACTIVE_COLLABORATORS_KEY @ ''Budget2024'') =
     getItem (snd (addCollaborator 1000 ''collab_1_old'' ''b@x.com'' ''Bob'' expiredWorld))
       (ACTIVE_COLLABORATORS_KEY @ ''Budget2024'') \<and>
   getItem (snd (addCollaborator 1000 ''collab_1_old'' ''b@x.com'' ''Bob'' expiredWorld))
     (ACTIVE_COLLABORATORS_KEY @ ''Budget2024'') =
     Some (Collaborators
       [\<lparr>email = ''b@x.com'', name = ''Bob'', joinedAt = 1000, lastActive = 1000, isActive = True\<rparr>]) \<and>
   getItem (snd (addCollaborator 1000 ''collab_1_old'' ''b@x.com'' ''Bob'' unexpiredWorld))
     (COLLABORATION_ACCESS_KEY @ ''b@x.com'') =
     getItem (snd (addCollaborator 1000 ''collab_1_old'' ''b@x.com'' ''Bob'' expiredWorld))
       (COLLABORATION_ACCESS_KEY @ ''b@x.com'') \<and>
   getItem (snd (addCollaborator 1000 ''collab_1_old'' ''b@x.com'' ''Bob'' expiredWorld))
     (COLLABORATION_ACCESS_KEY @ ''b@x.com'') = Some (Ids [''Budget2024'']) \<and>
   activities (snd (addCollaborator 1000 ''collab_1_old'' ''b@x.com'' ''Bob'' unexpiredWorld)) =
     activities (snd (addCollaborator 1000 ''collab_1_old'' ''b@x.com'' ''Bob'' expiredWorld)) \<and>
   activities (snd (addCollaborator 1000 ''collab_1_old'' ''b@x.com'' ''Bob'' expiredWorld)) =
     [\<lparr>recipient = ''a@x.com'', kind = ''collaboration_joined'', relatedId = None,
       message = ''Bob'' @ '' joined '' @ [CHR 0x22] @ ''Budget'' @ [CHR 0x22]\<rparr>]"
proof -
  have t: "(0::int) < 1000" by simp
  have x: "expiresAt \<lparr>linkId = ''collab_1_old'', spreadsheetId = ''Budget2024'',
            spreadsheetTitle = ''Budget'', ownerEmail = ''a@x.com'', createdAt = 0,
            expiresAt = Some 0\<rparr> = Some 0"
    by simp
  have w: "setItem (COLLABORATION_LINKS_KEY @ ''collab_1_old'')
             (Link (\<lparr>linkId = ''collab_1_old'', spreadsheetId = ''Budget2024'',
                spreadsheetTitle = ''Budget'', ownerEmail = ''a@x.com'', createdAt = 0,
                expiresAt = Some 0\<rparr>\<lparr>expiresAt := None\<rparr>)) expiredWorld = unexpiredWorld"
    by (simp add: unexpiredWorld_def)
  have lu: "fst (getCollaborationLink ''collab_1_old'' unexpiredWorld) =
     Some \<lparr>linkId = ''collab_1_old'', spreadsheetId = ''Budget2024'',
            spreadsheetTitle = ''Budget'', ownerEmail = ''a@x.com'', createdAt = 0,
            expiresAt = None\<rparr>"
    by (simp add: unexpiredWorld_def reads_after_link_write)
  have k: "ACTIVE_COLLABORATORS_KEY @ ''Budget2024'' \<noteq> COLLABORATION_LINKS_KEY @ ''collab_1_old''"
          "COLLABORATION_ACCESS_KEY @ ''b@x.com'' \<noteq> COLLABORATION_LINKS_KEY @ ''collab_1_old''"
    by simp_all
  note inst = expiry_not_enforced [OF expiredWorld_link(1) x t, where u = "''b@x.com''"
               and n = "''Bob''" and x = None, unfolded w]
  from inst have c1: "fst (addCollaborator 1000 ''collab_1_old'' ''b@x.com'' ''Bob'' expiredWorld) = True"
    and c2: "''b@x.com'' \<in> set (map email
     (storedCollaborators (snd (addCollaborator 1000 ''collab_1_old'' ''b@x.com'' ''Bob'' expiredWorld))
        (spreadsheetId \<lparr>linkId = ''collab_1_old'', spreadsheetId = ''Budget2024'',
            spreadsheetTitle = ''Budget'', ownerEmail = ''a@x.com'', createdAt = 0,
            expiresAt = Some 0\<rparr>)))"
    and c3: "fst (addCollaborator 1000 ''collab_1_old'' ''b@x.com'' ''Bob'' unexpiredWorld) =
             fst (addCollaborator 1000 ''collab_1_old'' ''b@x.com'' ''Bob'' expiredWorld)"
    and c5: "activities (snd (addCollaborator 1000 ''collab_1_old'' ''b@x.com'' ''Bob'' unexpiredWorld)) =
     activities (snd (addCollaborator 1000 ''collab_1_old'' ''b@x.com'' ''Bob'' expiredWorld))"
    by blast+
  from inst k have c4: "getItem (snd (addCollaborator 1000 ''collab_1_old'' ''b@x.com'' ''Bob'' unexpiredWorld))
     (ACTIVE_COLLABORATORS_KEY @ ''Budget2024'') =
     getItem (snd (addCollaborator 1000 ''collab_1_old'' ''b@x.com'' ''Bob'' expiredWorld))
       (ACTIVE_COLLABORATORS_KEY @ ''Budget2024'')"
    and c6: "getItem (snd (addCollaborator 1000 ''collab_1_old'' ''b@x.com'' ''Bob'' unexpiredWorld))
     (COLLABORATION_ACCESS_KEY @ ''b@x.com'') =
     getItem (snd (addCollaborator 1000 ''collab_1_old'' ''b@x.com'' ''Bob'' expiredWorld))
       (COLLABORATION_ACCESS_KEY @ ''b@x.com'')"
    by blast+
  from c2 have c2': "''b@x.com'' \<in> set (map email
     (storedCollaborators (snd (addCollaborator 1000 ''collab_1_old'' ''b@x.com'' ''Bob'' expiredWorld))
        ''Budget2024''))"
    by simp
  from c1 c3 have c3': "fst (addCollaborator 1000 ''collab_1_old'' ''b@x.com'' ''Bob'' unexpiredWorld) = True"
    by simp
  from expiredWorld_link(1) t lu c1 c2' c3' c4 c5 c6 expired_join_effects
  show ?thesis
    by (intro conjI)
qed

text \<open>
  C6 as stated says such a join does not register the collaborator. The link of
  \<open>expiredWorld\<close> expired at the instant 0; the join at the instant 1000 succeeds and
  stores the record.
\<close>

theorem expired_link_joins_counterexample:
  "map_option expiresAt (fst (getCollaborationLink ''collab_1_old'' expiredWorld)) = Some (Some 0) \<and>
   fst (addCollaborator 1000 ''collab_1_old'' ''b@x.com'' ''Bob'' expiredWorld) = True \<and>
   storedCollaborators (snd (addCollaborator 1000 ''collab_1_old'' ''b@x.com'' ''Bob'' expiredWorld))
     ''Budget2024'' =
   [\<lparr>email = ''b@x.com'', name = ''Bob'', joinedAt = 1000, lastActive = 1000, isActive = True\<rparr>]"
  by (simp add: fst_addCollaborator expiredWorld_link expired_joined)

section \<open>Removing a collaborator\<close>

text \<open>
  C7. After \<open>removeCollaborator\<close> for a document and an email, no roster read of that
  document returns an entry with that email, whatever the world was before. Removing
  twice in a row is the same as removing once: every roster read, every other store key
  and the notification log agree. Removing an email that is not on the roster leaves
  every roster read as it was.
\<close>

theorem remove_idempotent:
  "u \<notin> set (map email (fst (getActiveCollaborators t3 sid (removeCollaborator t1 sid u w)))) \<and>
   fst (getActiveCollaborators t3 sid' (removeCollaborator t2 sid u (removeCollaborator t1 sid u w))) =
     fst (getActiveCollaborators t3 sid' (removeCollaborator t1 sid u w)) \<and>
   (\<forall>k. k \<noteq> ACTIVE_COLLABORATORS_KEY @ sid \<longrightarrow>
        getItem (removeCollaborator t2 sid u (removeCollaborator t1 sid u w)) k =
        getItem (removeCollaborator t1 sid u w) k) \<and>
   activities (removeCollaborator t2 sid u (removeCollaborator t1 sid u w)) =
     activities (removeCollaborator t1 sid u w) \<and>
   (u \<notin> set (map email (fst (getActiveCollaborators t3 sid w))) \<longrightarrow>
      fst (getActiveCollaborators t3 sid' (removeCollaborator t1 sid u w)) =
      fst (getActiveCollaborators t3 sid' w))"
proof (intro conjI allI impI)
  show "u \<notin> set (map email (fst (getActiveCollaborators t3 sid (removeCollaborator t1 sid u w))))"
    by (auto simp: read_after_remove)
next
  show "fst (getActiveCollaborators t3 sid' (removeCollaborator t2 sid u (removeCollaborator t1 sid u w))) =
     fst (getActiveCollaborators t3 sid' (removeCollaborator t1 sid u w))"
    by (simp add: read_after_remove)
next
  fix k assume "k \<noteq> ACTIVE_COLLABORATORS_KEY @ sid"
  then show "getItem (removeCollaborator t2 sid u (removeCollaborator t1 sid u w)) k =
        getItem (removeCollaborator t1 sid u w) k"
    by (simp add: getItem_after_remove)
next
  show "activities (removeCollaborator t2 sid u (removeCollaborator t1 sid u w)) =
     activities (removeCollaborator t1 sid u w)"
    by (simp add: activities_after_remove)
next
  assume "u \<notin> set (map email (fst (getActiveCollaborators t3 sid w)))"
  then have "filter (\<lambda>c. email c \<noteq> u) (fst (getActiveCollaborators t3 sid w)) =
             fst (getActiveCollaborators t3 sid w)"
    by (auto simp: filter_id_conv)
  then show "fst (getActiveCollaborators t3 sid' (removeCollaborator t1 sid u w)) =
      fst (getActiveCollaborators t3 sid' w)"
    by (simp add: read_after_remove)
qed

theorem remove_idempotent_witness:
  "''b@x.com'' \<notin> set (map email (fst (getActiveCollaborators 300000 ''Budget2024''
       (removeCollaborator 5000 ''Budget2024'' ''b@x.com'' staleWorld)))) \<and>
   fst (getActiveCollaborators 300000 ''Budget2024''
          (removeCollaborator 301500 ''Budget2024'' ''b@x.com''
             (removeCollaborator 5000 ''Budget2024'' ''b@x.com'' staleWorld))) =
     [\<lparr>email = ''c@x.com'', name = ''Cy'', joinedAt = 0, lastActive = 1000, isActive = True\<rparr>] \<and>
   fst (getActiveCollaborators 300000 ''Budget2024''
          (removeCollaborator 5000 ''Budget2024'' ''b@x.com'' staleWorld)) =
     [\<lparr>email = ''c@x.com'', name = ''Cy'', joinedAt = 0, lastActive = 1000, isActive = True\<rparr>] \<and>
   ''d@x.com'' \<notin> set (map email (fst (getActiveCollaborators 300000 ''Budget2024'' staleWorld))) \<and>
   fst (getActiveCollaborators 300000 ''Budget2024''
          (removeCollaborator 5000 ''Budget2024'' ''d@x.com'' staleWorld)) =
     fst (getActiveCollaborators 300000 ''Budget2024'' staleWorld) \<and>
   COLLABORATION_ACCESS_KEY @ ''b@x.com'' \<noteq> ACTIVE_COLLABORATORS_KEY @ ''Budget2024'' \<and>
   getItem (removeCollaborator 301500 ''Budget2024'' ''b@x.com''
              (removeCollaborator 5000 ''Budget2024'' ''b@x.com'' staleWorld))
     (COLLABORATION_ACCESS_KEY @ ''b@x.com'') =
   getItem (removeCollaborator 5000 ''Budget2024'' ''b@x.com'' staleWorld)
     (COLLABORATION_ACCESS_KEY @ ''b@x.com'')"
proof -
  have s: "storedCollaborators staleWorld ''Budget2024'' =
     [\<lparr>email = ''b@x.com'', name = ''Bob'', joinedAt = 0, lastActive = 0, isActive = True\<rparr>,
      \<lparr>email = ''c@x.com'', name = ''Cy'', joinedAt = 0, lastActive = 1000, isActive = False\<rparr>]"
    by (simp add: storedCollaborators_def staleWorld_def getItem_def)
  have h: "''d@x.com'' \<notin> set (map email (fst (getActiveCollaborators 300000 ''Budget2024'' staleWorld)))"
    by (simp add: fst_getActiveCollaborators s)
  have e: "fst (getActiveCollaborators 300000 ''Budget2024''
          (removeCollaborator 5000 ''Budget2024'' ''b@x.com'' staleWorld)) =
     [\<lparr>email = ''c@x.com'', name = ''Cy'', joinedAt = 0, lastActive = 1000, isActive = True\<rparr>]"
    by (simp add: stored_after_remove fst_getActiveCollaborators s fiveMinutes_def)
  note b = remove_idempotent [of "''b@x.com''" 300000 "''Budget2024''" 5000 staleWorld
             "''Budget2024''" 301500]
  note d = remove_idempotent [of "''d@x.com''" 300000 "''Budget2024''" 5000 staleWorld
             "''Budget2024''" 301500]
  from b have b1: "''b@x.com'' \<notin> set (map email (fst (getActiveCollaborators 300000 ''Budget2024''
       (removeCollaborator 5000 ''Budget2024'' ''b@x.com'' staleWorld))))"
    by blast
  from b have b2: "fst (getActiveCollaborators 300000 ''Budget2024''
          (removeCollaborator 301500 ''Budget2024'' ''b@x.com''
             (removeCollaborator 5000 ''Budget2024'' ''b@x.com'' staleWorld))) =
      fst (getActiveCollaborators 300000 ''Budget2024''
          (removeCollaborator 5000 ''Budget2024'' ''b@x.com'' staleWorld))"
    by blast
  from d h have d1: "fst (getActiveCollaborators 300000 ''Budget2024''
          (removeCollaborator 5000 ''Budget2024'' ''d@x.com'' staleWorld)) =
     fst (getActiveCollaborators 300000 ''Budget2024'' staleWorld)"
    by blast
  have k: "COLLABORATION_ACCESS_KEY @ ''b@x.com'' \<noteq> ACTIVE_COLLABORATORS_KEY @ ''Budget2024''"
    by simp
  with b have b3: "getItem (removeCollaborator 301500 ''Budget2024'' ''b@x.com''
              (removeCollaborator 5000 ''Budget2024'' ''b@x.com'' staleWorld))
     (COLLABORATION_ACCESS_KEY @ ''b@x.com'') =
   getItem (removeCollaborator 5000 ''Budget2024'' ''b@x.com'' staleWorld)
     (COLLABORATION_ACCESS_KEY @ ''b@x.com'')"
    by blast
  from b1 b2 b3 d1 h e k show ?thesis
    by (simp only: simp_thms)
qed

section \<open>The shareable URL\<close>

text \<open>
  C8, as the code has it. \<open>getCollaborationLinkUrl\<close> builds exactly
  \<open>origin ?collab= linkId\<close>, with the id inserted as it is. For an id made of letters,
  digits and underscores and an origin without \<^verbatim>\<open>?\<close> or \<^verbatim>\<open>#\<close>,
  \<open>parseCollaborationLink\<close> on a page opened at that URL returns the id. A query without
  a \<open>collab\<close> parameter, and a URL without a query, parse as absent. The ids that
  \<open>generateLinkId\<close> builds at a clock reading from the epoch on, with a random suffix of
  that alphabet, are made of letters, digits and underscores.
\<close>

theorem link_url_round_trip:
  "getCollaborationLinkUrl origin lid = origin @ ''?collab='' @ lid \<and>
   (CHR ''?'' \<notin> set origin \<and> CHR ''#'' \<notin> set origin \<and> (\<forall>c\<in>set lid. linkIdChar c) \<longrightarrow>
      parseCollaborationLink (location_search (getCollaborationLinkUrl origin lid)) = Some lid) \<and>
   (''collab'' \<notin> set (map fst (URLSearchParams search)) \<longrightarrow> parseCollaborationLink search = None) \<and>
   (CHR ''?'' \<notin> set url \<longrightarrow> parseCollaborationLink (location_search url) = None) \<and>
   (0 \<le> now \<and> (\<forall>c\<in>set rnd. linkIdChar c) \<longrightarrow>
      (\<forall>c\<in>set (generateLinkId now rnd). linkIdChar c))"
proof (intro conjI impI)
  show "getCollaborationLinkUrl origin lid = origin @ ''?collab='' @ lid"
    by (simp add: getCollaborationLinkUrl_def)
next
  assume a: "CHR ''?'' \<notin> set origin \<and> CHR ''#'' \<notin> set origin \<and> (\<forall>c\<in>set lid. linkIdChar c)"
  then have plain: "CHR ''&'' \<notin> set lid" "CHR ''#'' \<notin> set lid" "CHR ''+'' \<notin> set lid"
    "CHR ''%'' \<notin> set lid"
    by (simp_all add: linkIdChar_plain)
  from a have "location_search (getCollaborationLinkUrl origin lid) = ''?collab='' @ lid"
    by (intro location_search_of_link plain) simp_all
  moreover have "parseCollaborationLink (''?collab='' @ lid) = Some lid"
    by (intro parse_plain_search plain)
  ultimately show "parseCollaborationLink (location_search (getCollaborationLinkUrl origin lid)) = Some lid"
    by (simp only:)
next
  assume "''collab'' \<notin> set (map fst (URLSearchParams search))"
  then have "find (\<lambda>p. fst p = ''collab'') (URLSearchParams search) = None"
    by (force simp: find_None_iff)
  then show "parseCollaborationLink search = None"
    by (simp add: parseCollaborationLink_def URLSearchParams_get_def)
next
  assume "CHR ''?'' \<notin> set url"
  then show "parseCollaborationLink (location_search url) = None"
    by (rule no_query_no_link)
next
  assume "0 \<le> now \<and> (\<forall>c\<in>set rnd. linkIdChar c)"
  then show "\<forall>c\<in>set (generateLinkId now rnd). linkIdChar c"
    by (intro generated_linkIdChar) simp_all
qed

theorem link_url_round_trip_witness:
  "CHR ''?'' \<notin> set ''https://x'' \<and> CHR ''#'' \<notin> set ''https://x'' \<and>
   list_all linkIdChar ''abc123'' \<and>
   getCollaborationLinkUrl ''https://x'' ''abc123'' = ''https://x?collab=abc123'' \<and>
   parseCollaborationLink (location_search ''https://x?collab=abc123'') = Some ''abc123'' \<and>
   ''collab'' \<notin> set (map fst (URLSearchParams ''?sheet=7'')) \<and>
   parseCollaborationLink ''?sheet=7'' = None \<and>
   parseCollaborationLink (location_search ''https://x'') = None \<and>
   (0::int) \<le> 5 \<and> list_all linkIdChar ''x1'' \<and>
   list_all linkIdChar (generateLinkId 5 ''x1'')"
proof -
  have o: "CHR ''?'' \<notin> set ''https://x''" "CHR ''#'' \<notin> set ''https://x''"
    by simp_all
  have l: "\<forall>c\<in>set ''abc123''. linkIdChar c"
    by (simp add: linkIdChar_def)
  have n: "''collab'' \<notin> set (map fst (URLSearchParams ''?sheet=7''))"
    by (simp add: URLSearchParams_def parse_pair_def urldecode_def)
  have r: "(0::int) \<le> 5" "\<forall>c\<in>set ''x1''. linkIdChar c"
    by (simp_all add: linkIdChar_def)
  from link_url_round_trip [where origin = "''https://x''" and lid = "''abc123''"
         and search = "''?sheet=7''" and url = "''https://x''" and now = 5 and rnd = "''x1''"]
       o l n r
  show ?thesis
    by (simp add: list_all_iff getCollaborationLinkUrl_def)
qed

text \<open>
  C8 as stated promises the round trip for every id. The id is not escaped when the
  URL is built, so an id with a \<^verbatim>\<open>&\<close> ends the parameter early: \<open>a&b\<close> comes back as \<open>a\<close>.
\<close>

theorem link_url_round_trip_counterexample:
  "getCollaborationLinkUrl ''https://x'' ''a&b'' = ''https://x?collab=a&b'' \<and>
   parseCollaborationLink (location_search (getCollaborationLinkUrl ''https://x'' ''a&b'')) = Some ''a'' \<and>
   ''a'' \<noteq> ''a&b''"
  by (simp add: parseCollaborationLink_def location_search_def getCollaborationLinkUrl_def
        URLSearchParams_def URLSearchParams_get_def parse_pair_def urldecode_def)

section \<open>What a join writes\<close>

text \<open>
  C10. A join through a link that resolves to document \<open>D\<close> leaves every store key but
  two as it was: the roster key of \<open>D\<close> and the access key of the joining user. The
  access key is written only when \<open>D\<close> is not yet listed there, and then \<open>D\<close> is
  appended. So every link record, every owner index, the roster of every other document
  and the access list of every other user read as before.
\<close>

theorem join_frame:
  assumes "fst (getCollaborationLink lid w) = Some link"
  shows "(\<forall>k. k \<noteq> ACTIVE_COLLABORATORS_KEY @ spreadsheetId link \<and>
              k \<noteq> COLLABORATION_ACCESS_KEY @ u \<longrightarrow>
              getItem (snd (addCollaborator now lid u n w)) k = getItem w k) \<and>
         (spreadsheetId link \<in> set (fst (getUserCollaborations u w)) \<longrightarrow>
            getItem (snd (addCollaborator now lid u n w)) (COLLABORATION_ACCESS_KEY @ u) =
            getItem w (COLLABORATION_ACCESS_KEY @ u)) \<and>
         (spreadsheetId link \<notin> set (fst (getUserCollaborations u w)) \<longrightarrow>
            getItem (snd (addCollaborator now lid u n w)) (COLLABORATION_ACCESS_KEY @ u) =
            Some (Ids (fst (getUserCollaborations u w) @ [spreadsheetId link]))) \<and>
         (\<forall>lid'. fst (getCollaborationLink lid' (snd (addCollaborator now lid u n w))) =
                  fst (getCollaborationLink lid' w)) \<and>
         (\<forall>e. fst (getOwnerLinks e (snd (addCollaborator now lid u n w))) =
               fst (getOwnerLinks e w)) \<and>
         (\<forall>sid. sid \<noteq> spreadsheetId link \<longrightarrow>
                storedCollaborators (snd (addCollaborator now lid u n w)) sid =
                storedCollaborators w sid) \<and>
         (\<forall>e. e \<noteq> u \<longrightarrow>
              fst (getUserCollaborations e (snd (addCollaborator now lid u n w))) =
              fst (getUserCollaborations e w))"
proof (intro conjI allI impI)
  fix k
  assume "k \<noteq> ACTIVE_COLLABORATORS_KEY @ spreadsheetId link \<and> k \<noteq> COLLABORATION_ACCESS_KEY @ u"
  with assms show "getItem (snd (addCollaborator now lid u n w)) k = getItem w k"
    by (simp add: getItem_after_join)
next
  assume "spreadsheetId link \<in> set (fst (getUserCollaborations u w))"
  with assms show "getItem (snd (addCollaborator now lid u n w)) (COLLABORATION_ACCESS_KEY @ u) =
            getItem w (COLLABORATION_ACCESS_KEY @ u)"
    by (simp add: access_after_join)
next
  assume "spreadsheetId link \<notin> set (fst (getUserCollaborations u w))"
  with assms show "getItem (snd (addCollaborator now lid u n w)) (COLLABORATION_ACCESS_KEY @ u) =
            Some (Ids (fst (getUserCollaborations u w) @ [spreadsheetId link]))"
    by (simp add: access_after_join)
next
  fix lid'
  show "fst (getCollaborationLink lid' (snd (addCollaborator now lid u n w))) =
        fst (getCollaborationLink lid' w)"
    by (rule link_after_join)
next
  fix e
  from assms have "getItem (snd (addCollaborator now lid u n w)) (OWNER_LINKS_KEY @ e) =
                   getItem w (OWNER_LINKS_KEY @ e)"
    by (intro getItem_after_join) simp_all
  then show "fst (getOwnerLinks e (snd (addCollaborator now lid u n w))) = fst (getOwnerLinks e w)"
    by (simp add: getOwnerLinks_def split: option.splits stored.splits)
next
  fix sid assume "sid \<noteq> spreadsheetId link"
  with assms show "storedCollaborators (snd (addCollaborator now lid u n w)) sid =
                   storedCollaborators w sid"
    by (simp add: stored_other_after_join)
next
  fix e assume "e \<noteq> u"
  with assms have "getItem (snd (addCollaborator now lid u n w)) (COLLABORATION_ACCESS_KEY @ e) =
                   getItem w (COLLABORATION_ACCESS_KEY @ e)"
    by (intro getItem_after_join) simp_all
  then show "fst (getUserCollaborations e (snd (addCollaborator now lid u n w))) =
             fst (getUserCollaborations e w)"
    by (simp add: getUserCollaborations_def split: option.splits stored.splits)
qed

theorem join_frame_witness:
  "fst (getCollaborationLink ''collab_5_x1'' sharedWorld) =
     Some \<lparr>linkId = ''collab_5_x1'', spreadsheetId = ''Budget2024'',
            spreadsheetTitle = ''Budget'', ownerEmail = ''a@x.com'', createdAt = 5,
            expiresAt = None\<rparr> \<and>
   ''Budget2024'' \<notin> set (fst (getUserCollaborations ''b@x.com'' sharedWorld)) \<and>
   getItem (snd (addCollaborator 9 ''collab_5_x1'' ''b@x.com'' ''Bob'' sharedWorld))
     (COLLABORATION_ACCESS_KEY @ ''b@x.com'') = Some (Ids [''Budget2024'']) \<and>
   getItem (snd (addCollaborator 9 ''collab_5_x1'' ''b@x.com'' ''Bob'' sharedWorld))
     (OWNER_LINKS_KEY @ ''a@x.com'') = Some (Ids [''collab_5_x1'', ''collab_6_y2'']) \<and>
   fst (getCollaborationLink ''collab_6_y2''
          (snd (addCollaborator 9 ''collab_5_x1'' ''b@x.com'' ''Bob'' sharedWorld))) =
     fst (getCollaborationLink ''collab_6_y2'' sharedWorld) \<and>
   storedCollaborators (snd (addCollaborator 9 ''collab_5_x1'' ''b@x.com'' ''Bob'' sharedWorld)) ''Plan'' = [] \<and>
   fst (getUserCollaborations ''a@x.com''
          (snd (addCollaborator 9 ''collab_5_x1'' ''b@x.com'' ''Bob'' sharedWorld))) =
     fst (getUserCollaborations ''a@x.com'' sharedWorld) \<and>
   ''Budget2024'' \<in> set (fst (getUserCollaborations ''b@x.com''
          (snd (addCollaborator 9 ''collab_5_x1'' ''b@x.com'' ''Bob'' sharedWorld)))) \<and>
   getItem (snd (addCollaborator 20 ''collab_5_x1'' ''b@x.com'' ''Robert''
              (snd (addCollaborator 9 ''collab_5_x1'' ''b@x.com'' ''Bob'' sharedWorld))))
     (COLLABORATION_ACCESS_KEY @ ''b@x.com'') = Some (Ids [''Budget2024''])"
proof -
  note first = join_frame [OF sharedWorld_links(1), of "''b@x.com''" 9 "''Bob''"]
  note second = join_frame [OF bob_link, of "''b@x.com''" 20 "''Robert''"]
  have o: "getItem sharedWorld (OWNER_LINKS_KEY @ ''a@x.com'') = Some (Ids [''collab_5_x1'', ''collab_6_y2''])"
    by (simp add: sharedWorld_eval getItem_def)
  have k: "OWNER_LINKS_KEY @ ''a@x.com'' \<noteq> ACTIVE_COLLABORATORS_KEY @ ''Budget2024'' \<and>
           OWNER_LINKS_KEY @ ''a@x.com'' \<noteq> COLLABORATION_ACCESS_KEY @ ''b@x.com''"
    by simp
  from first have a1: "getItem (snd (addCollaborator 9 ''collab_5_x1'' ''b@x.com'' ''Bob'' sharedWorld))
     (COLLABORATION_ACCESS_KEY @ ''b@x.com'') = Some (Ids [''Budget2024''])"
    by (simp add: bob_access)
  from first k have a2: "getItem (snd (addCollaborator 9 ''collab_5_x1'' ''b@x.com'' ''Bob'' sharedWorld))
     (OWNER_LINKS_KEY @ ''a@x.com'') = getItem sharedWorld (OWNER_LINKS_KEY @ ''a@x.com'')"
    by simp
  from first have a3: "fst (getCollaborationLink ''collab_6_y2''
          (snd (addCollaborator 9 ''collab_5_x1'' ''b@x.com'' ''Bob'' sharedWorld))) =
     fst (getCollaborationLink ''collab_6_y2'' sharedWorld)"
    by blast
  from first have a4: "storedCollaborators (snd (addCollaborator 9 ''collab_5_x1'' ''b@x.com'' ''Bob'' sharedWorld)) ''Plan'' =
      storedCollaborators sharedWorld ''Plan''"
    by simp
  from second have b1: "getItem (snd (addCollaborator 20 ''collab_5_x1'' ''b@x.com'' ''Robert''
              (snd (addCollaborator 9 ''collab_5_x1'' ''b@x.com'' ''Bob'' sharedWorld))))
     (COLLABORATION_ACCESS_KEY @ ''b@x.com'') =
     getItem (snd (addCollaborator 9 ''collab_5_x1'' ''b@x.com'' ''Bob'' sharedWorld))
       (COLLABORATION_ACCESS_KEY @ ''b@x.com'')"
    by (simp add: bob_access)
  from first have a5: "fst (getUserCollaborations ''a@x.com''
          (snd (addCollaborator 9 ''collab_5_x1'' ''b@x.com'' ''Bob'' sharedWorld))) =
     fst (getUserCollaborations ''a@x.com'' sharedWorld)"
    by simp
  from a1 a2 a3 a4 a5 b1 o show ?thesis
    by (simp add: sharedWorld_links bob_access)
qed

section \<open>Ownership\<close>

text \<open>
  C9, as the code has it. \<open>isSpreadsheetOwner\<close> for a document and an email is true exactly
  when some link id in the owner index of that email resolves to a link of that
  document. After \<open>a\<close> creates a link for the document and a different user \<open>b\<close> joins
  through it, \<open>a\<close> is an owner; \<open>b\<close> is not an owner provided \<open>b\<close> was none before and the
  owner index of \<open>b\<close> does not hold the id of the new link.
\<close>

theorem owner_iff_holds_link:
  "(fst (isSpreadsheetOwner sid e w) \<longleftrightarrow>
      (\<exists>lid\<in>set (fst (getOwnerLinks e w)).
         \<exists>link. fst (getCollaborationLink lid w) = Some link \<and> spreadsheetId link = sid)) \<and>
   (a \<noteq> b \<and> \<not> fst (isSpreadsheetOwner sid b w) \<and>
    generateLinkId t rnd \<notin> set (fst (getOwnerLinks b w)) \<longrightarrow>
      (let (link, w1) = createCollaborationLink t rnd sid title a w;
           (joined, w2) = addCollaborator t' (linkId link) b n w1
       in joined \<and> fst (isSpreadsheetOwner sid a w2) \<and> \<not> fst (isSpreadsheetOwner sid b w2)))"
proof (intro conjI impI)
  show "fst (isSpreadsheetOwner sid e w) \<longleftrightarrow>
      (\<exists>lid\<in>set (fst (getOwnerLinks e w)).
         \<exists>link. fst (getCollaborationLink lid w) = Some link \<and> spreadsheetId link = sid)"
    by (rule fst_isSpreadsheetOwner)
next
  assume h: "a \<noteq> b \<and> \<not> fst (isSpreadsheetOwner sid b w) \<and>
    generateLinkId t rnd \<notin> set (fst (getOwnerLinks b w))"
  define w1 where "w1 = snd (createCollaborationLink t rnd sid title a w)"
  have j: "fst (addCollaborator t' (generateLinkId t rnd) b n w1)"
    by (simp add: fst_addCollaborator w1_def link_after_create)
  have oa: "fst (isSpreadsheetOwner sid a w1)"
    by (simp add: fst_isSpreadsheetOwner w1_def ownerLinks_after_create link_after_create)
  from h have "\<forall>lid\<in>set (fst (getOwnerLinks b w)).
      \<not> (\<exists>link. fst (getCollaborationLink lid w) = Some link \<and> spreadsheetId link = sid)"
    by (simp add: fst_isSpreadsheetOwner)
  with h have ob: "\<not> fst (isSpreadsheetOwner sid b w1)"
    by (auto simp: fst_isSpreadsheetOwner w1_def ownerLinks_after_create link_after_create)
  from j oa ob show "let (link, w1) = createCollaborationLink t rnd sid title a w;
           (joined, w2) = addCollaborator t' (linkId link) b n w1
       in joined \<and> fst (isSpreadsheetOwner sid a w2) \<and> \<not> fst (isSpreadsheetOwner sid b w2)"
    by (simp add: split_beta Let_def fst_create owner_after_join w1_def)
qed

theorem owner_iff_holds_link_witness:
  "''a@x.com'' \<noteq> ''b@x.com'' \<and>
   \<not> fst (isSpreadsheetOwner ''Budget2024'' ''b@x.com'' emptyWorld) \<and>
   generateLinkId 5 ''x1'' \<notin> set (fst (getOwnerLinks ''b@x.com'' emptyWorld)) \<and>
   fst (addCollaborator 9 ''collab_5_x1'' ''b@x.com'' ''Bob''
          (snd (createCollaborationLink 5 ''x1'' ''Budget2024'' ''Budget'' ''a@x.com'' emptyWorld))) \<and>
   fst (isSpreadsheetOwner ''Budget2024'' ''a@x.com''
          (snd (addCollaborator 9 ''collab_5_x1'' ''b@x.com'' ''Bob''
             (snd (createCollaborationLink 5 ''x1'' ''Budget2024'' ''Budget'' ''a@x.com'' emptyWorld))))) \<and>
   \<not> fst (isSpreadsheetOwner ''Budget2024'' ''b@x.com''
          (snd (addCollaborator 9 ''collab_5_x1'' ''b@x.com'' ''Bob''
             (snd (createCollaborationLink 5 ''x1'' ''Budget2024'' ''Budget'' ''a@x.com'' emptyWorld)))))"
proof -
  have e: "fst (getOwnerLinks ''b@x.com'' emptyWorld) = []"
    by (simp add: getOwnerLinks_def getItem_def emptyWorld_def)
  have h: "''a@x.com'' \<noteq> ''b@x.com'' \<and>
           \<not> fst (isSpreadsheetOwner ''Budget2024'' ''b@x.com'' emptyWorld) \<and>
           generateLinkId 5 ''x1'' \<notin> set (fst (getOwnerLinks ''b@x.com'' emptyWorld))"
    by (simp add: fst_isSpreadsheetOwner e)
  from owner_iff_holds_link [of "''Budget2024''" "''b@x.com''" emptyWorld "''a@x.com''" "''b@x.com''"
         5 "''x1''" "''Budget''" 9 "''Bob''"] h
  show ?thesis
    by (simp add: split_beta Let_def fst_create generated_ids)
qed

text \<open>
  C9 as stated says that the joining user is never an owner. A user who has created a
  link of their own for the document is one, before and after joining through the link
  of \<open>a\<close>.
\<close>

theorem joiner_owns_counterexample:
  "''a@x.com'' \<noteq> ''b@x.com'' \<and>
   fst (addCollaborator 9 ''collab_5_x1'' ''b@x.com'' ''Bob''
          (snd (createCollaborationLink 5 ''x1'' ''Budget2024'' ''Budget'' ''a@x.com''
             (snd (createCollaborationLink 3 ''b0'' ''Budget2024'' ''Budget'' ''b@x.com'' emptyWorld))))) \<and>
   fst (isSpreadsheetOwner ''Budget2024'' ''a@x.com''
          (snd (addCollaborator 9 ''collab_5_x1'' ''b@x.com'' ''Bob''
             (snd (createCollaborationLink 5 ''x1'' ''Budget2024'' ''Budget'' ''a@x.com''
                (snd (createCollaborationLink 3 ''b0'' ''Budget2024'' ''Budget'' ''b@x.com'' emptyWorld))))))) \<and>
   fst (isSpreadsheetOwner ''Budget2024'' ''b@x.com''
          (snd (addCollaborator 9 ''collab_5_x1'' ''b@x.com'' ''Bob''
             (snd (createCollaborationLink 5 ''x1'' ''Budget2024'' ''Budget'' ''a@x.com''
                (snd (createCollaborationLink 3 ''b0'' ''Budget2024'' ''Budget'' ''b@x.com'' emptyWorld)))))))"
  by (simp add: fst_addCollaborator fst_isSpreadsheetOwner ownerLinks_after_join link_after_join
        ownerLinks_after_create link_after_create generated_ids emptyWorld_reads)

section \<open>Unknown links\<close>

text \<open>
  C4. For a \<open>lid\<close> with nothing stored under its link key, \<open>getCollaborationLink\<close> returns the
  absent value as an ordinary result, and \<open>addCollaborator\<close> returns \<open>false\<close> and leaves the
  whole world as it was: the store (rosters, access index and all other keys) and the
  log of dispatched notifications.
\<close>

theorem unknown_link_not_found:
  "getItem w (COLLABORATION_LINKS_KEY @ lid) = None \<Longrightarrow>
     getCollaborationLink lid w = (None, w) \<and>
     addCollaborator now lid userEmail userName w = (False, w)"
  by (simp add: addCollaborator_def getCollaborationLink_def)

theorem unknown_link_not_found_witness:
  "getItem (snd (createCollaborationLink 5 ''x1'' ''Budget2024'' ''Budget'' ''a@x.com'' emptyWorld))
     (COLLABORATION_LINKS_KEY @ ''collab_7_zz'') = None \<and>
   getCollaborationLink ''collab_7_zz''
     (snd (createCollaborationLink 5 ''x1'' ''Budget2024'' ''Budget'' ''a@x.com'' emptyWorld)) =
     (None, snd (createCollaborationLink 5 ''x1'' ''Budget2024'' ''Budget'' ''a@x.com'' emptyWorld)) \<and>
   addCollaborator 9 ''collab_7_zz'' ''b@x.com'' ''Bob''
     (snd (createCollaborationLink 5 ''x1'' ''Budget2024'' ''Budget'' ''a@x.com'' emptyWorld)) =
     (False, snd (createCollaborationLink 5 ''x1'' ''Budget2024'' ''Budget'' ''a@x.com'' emptyWorld))"
proof -
  have absent:
    "getItem (snd (createCollaborationLink 5 ''x1'' ''Budget2024'' ''Budget'' ''a@x.com'' emptyWorld))
       (COLLABORATION_LINKS_KEY @ ''collab_7_zz'') = None"
    by (simp add: createCollaborationLink_def Let_def split_beta generateLinkId_def show_int_def
          show_nat.simps getItem_def emptyWorld_def setItem_def)
  from unknown_link_not_found [OF absent, of 9 "''b@x.com''" "''Bob''"] absent
  show ?thesis by simp
qed

end
